theory Spec2Isabelle
  imports Complex_Main "HOL-Library.Sublist"
begin

section \<open>Python values and the string operations the scripts use\<close>

text \<open>
  The scripts are dynamically typed: a spreadsheet cell, and a parsed field, is a string,
  an integer, \<open>None\<close> or the floating-point \<open>NaN\<close> that pandas puts in an empty cell.
  A string is a list of 8-bit characters, read as the code points 0 to 255. A price is
  copied by the scripts and never rendered or computed with. A cell of any other column
  that holds a floating-point number other than \<open>NaN\<close> (pandas loads a numeric column with
  a blank as floats, and \<open>str\<close> renders the number 1 of such a column as \<open>1.0\<close>) is outside
  the model: the statements range over string, integer and missing cells.
\<close>

datatype pyval = PNone | PNaN | PStr string | PInt int

datatype py_error = IndexError | IOError | ValueError

text \<open>\<open>str(n)\<close> for a natural number: its decimal digits.\<close>

fun str_nat :: "nat \<Rightarrow> string" where
  "str_nat n =
     (if n < 10 then [char_of (48 + n)]
      else str_nat (n div 10) @ [char_of (48 + n mod 10)])"

declare str_nat.simps [simp del]

text \<open>\<open>str(x)\<close>: \<open>str(None) = 'None'\<close>, \<open>str(float('nan')) = 'nan'\<close>.\<close>

fun py_str :: "pyval \<Rightarrow> string" where
  "py_str PNone = ''None''"
| "py_str PNaN = ''nan''"
| "py_str (PStr s) = s"
| "py_str (PInt i) = (if i < 0 then CHR ''-'' # str_nat (nat (- i)) else str_nat (nat i))"

text \<open>\<open>pd.isna(x)\<close>: true of \<open>None\<close> and of \<open>NaN\<close>.\<close>

fun isna :: "pyval \<Rightarrow> bool" where
  "isna PNone = True"
| "isna PNaN = True"
| "isna _ = False"

text \<open>
  \<open>s.upper()\<close>, character by character: the letters a..z (codes 97..122) and the
  lower-case letters of the upper half (224..246 and 248..254) move down by 32. The three
  characters whose upper-case form is not an 8-bit character (181, 223 and 255) are
  outside the model and left as they are.
\<close>

definition to_upper :: "char \<Rightarrow> char" where
  "to_upper c =
     (let n = (of_char c :: nat)
      in if (97 \<le> n \<and> n \<le> 122) \<or> (224 \<le> n \<and> n \<le> 246) \<or> (248 \<le> n \<and> n \<le> 254)
         then char_of (n - 32) else c)"

definition upper :: "string \<Rightarrow> string" where
  "upper s = map to_upper s"

text \<open>
  The characters \<open>str.strip()\<close> removes: tab, line feed, vertical tab, form feed, carriage
  return (9..13), the separators 28..31, the space (32), the next-line control (133) and
  the no-break space (160).
\<close>

definition is_space :: "char \<Rightarrow> bool" where
  "is_space c =
     (let n = (of_char c :: nat)
      in (9 \<le> n \<and> n \<le> 13) \<or> (28 \<le> n \<and> n \<le> 32) \<or> n = 133 \<or> n = 160)"

definition strip :: "string \<Rightarrow> string" where
  "strip s = rev (dropWhile is_space (rev (dropWhile is_space s)))"

text \<open>\<open>s.split(sep)\<close> for a one-character separator: always at least one segment.\<close>

fun py_split :: "char \<Rightarrow> string \<Rightarrow> string list" where
  "py_split sep [] = [[]]"
| "py_split sep (c # cs) =
     (if c = sep then [] # py_split sep cs
      else (case py_split sep cs of
              [] \<Rightarrow> [[c]]
            | w # ws \<Rightarrow> (c # w) # ws))"

text \<open>\<open>sep.join(xs)\<close>.\<close>

fun py_join :: "string \<Rightarrow> string list \<Rightarrow> string" where
  "py_join sep [] = []"
| "py_join sep [x] = x"
| "py_join sep (x # y # ys) = x @ sep @ py_join sep (y # ys)"

text \<open>
  \<open>xs[i]\<close>: a negative index counts from the end, and an index outside the list raises
  \<open>IndexError\<close>.
\<close>

definition py_index :: "'a list \<Rightarrow> int \<Rightarrow> py_error + 'a" where
  "py_index xs i =
     (let k = (if i < 0 then i + int (length xs) else i)
      in if k < 0 \<or> int (length xs) \<le> k then Inl IndexError else Inr (xs ! nat k))"

text \<open>\<open>xs[i:j]\<close>: both bounds are clipped to the list, and the slice never raises.\<close>

definition py_slice :: "'a list \<Rightarrow> int \<Rightarrow> int \<Rightarrow> 'a list" where
  "py_slice xs i j =
     (let n = int (length xs);
          a = (if i < 0 then max 0 (n + i) else min i n);
          b = (if j < 0 then max 0 (n + j) else min j n)
      in take (nat (b - a)) (drop (nat a) xs))"

text \<open>Sequencing of computations that may raise: the first exception ends the block.\<close>

definition ebind :: "py_error + 'a \<Rightarrow> ('a \<Rightarrow> py_error + 'b) \<Rightarrow> py_error + 'b" where
  "ebind m f = (case m of Inl e \<Rightarrow> Inl e | Inr x \<Rightarrow> f x)"

section \<open>Key normaliser: \<open>parse_item_no\<close>\<close>

text \<open>
  \<open>parse_item_no\<close> of \<open>vendor_price_matcher.py\<close>. The four results are strings, or
  \<open>None\<close> where the code returns \<open>None\<close>.
\<close>

definition parse_item_no :: "pyval \<Rightarrow> py_error + (pyval \<times> pyval \<times> pyval \<times> pyval)" where
  "parse_item_no item_no =
     (let parts = py_split CHR ''-'' (py_str item_no) in
      if length parts = 4 then
        ebind (py_index parts 0) (\<lambda>style.
        ebind (py_index parts 1) (\<lambda>color.
        ebind (py_index parts 2) (\<lambda>size.
        ebind (py_index parts 3) (\<lambda>variable.
        Inr (PStr style, PStr color, PStr size, PStr variable)))))
      else if length parts = 3 then
        ebind (py_index parts 0) (\<lambda>style.
        ebind (py_index parts 1) (\<lambda>color.
        ebind (py_index parts 2) (\<lambda>size.
        Inr (PStr style, PStr color, PStr size, PNone))))
      else if length parts > 4 then
        ebind (py_index parts 0) (\<lambda>style.
        ebind (py_index parts (- 1)) (\<lambda>variable.
        ebind (py_index parts (- 2)) (\<lambda>size.
        let color = py_join ''-'' (py_slice parts 1 (- 2))
        in Inr (PStr style, PStr color, PStr size, PStr variable))))
      else Inr (PNone, PNone, PNone, PNone))"

text \<open>
  \<open>parse_item_no\<close> of \<open>find_discontinued_items.py\<close>: the same function, with the
  3- and 4-segment cases written as one tuple expression each.
\<close>

definition parse_item_no_disc :: "pyval \<Rightarrow> py_error + (pyval \<times> pyval \<times> pyval \<times> pyval)" where
  "parse_item_no_disc item_no =
     (let parts = py_split CHR ''-'' (py_str item_no) in
      if length parts = 4 then
        ebind (py_index parts 0) (\<lambda>p0.
        ebind (py_index parts 1) (\<lambda>p1.
        ebind (py_index parts 2) (\<lambda>p2.
        ebind (py_index parts 3) (\<lambda>p3.
        Inr (PStr p0, PStr p1, PStr p2, PStr p3)))))
      else if length parts = 3 then
        ebind (py_index parts 0) (\<lambda>p0.
        ebind (py_index parts 1) (\<lambda>p1.
        ebind (py_index parts 2) (\<lambda>p2.
        Inr (PStr p0, PStr p1, PStr p2, PNone))))
      else if length parts > 4 then
        ebind (py_index parts 0) (\<lambda>style.
        ebind (py_index parts (- 1)) (\<lambda>variable.
        ebind (py_index parts (- 2)) (\<lambda>size.
        let color = py_join ''-'' (py_slice parts 1 (- 2))
        in Inr (PStr style, PStr color, PStr size, PStr variable))))
      else Inr (PNone, PNone, PNone, PNone))"

section \<open>Key normaliser: \<open>create_lookup_key\<close>\<close>

text \<open>\<open>create_lookup_key\<close> of \<open>find_discontinued_items.py\<close>.\<close>

definition create_lookup_key :: "pyval \<Rightarrow> pyval \<Rightarrow> pyval \<Rightarrow> pyval \<Rightarrow> string" where
  "create_lookup_key style color size' variable =
     (let style_n = strip (upper (py_str style));
          color_n = strip (upper (py_str color));
          size_n = strip (upper (py_str size'));
          var_n =
            (if isna variable \<or> variable = PNone \<or> strip (py_str variable) = ''''
                \<or> strip (upper (py_str variable)) \<in> set [''NONE'', ''NAN'']
             then ''''
             else strip (upper (py_str variable)))
      in if var_n \<noteq> '''' then style_n @ ''|'' @ color_n @ ''|'' @ size_n @ ''|'' @ var_n
         else style_n @ ''|'' @ color_n @ ''|'' @ size_n)"

section \<open>Size mapper\<close>

text \<open>
  The module constants \<open>SIZE_MAPPING\<close> and \<open>STYLES_USING_G_SIZES\<close>. A rule is a
  bare style string or a (style, color) tuple.
\<close>

datatype size_rule = StyleRule string | StyleColorRule string string

definition SIZE_MAPPING :: "string \<rightharpoonup> string" where
  "SIZE_MAPPING =
     map_of [(''XS'', ''XSM''), (''S'', ''SM''), (''M'', ''MD''), (''L'', ''LG''),
             (''XL'', ''XLG''), (''2XL'', ''2XLG''), (''3XL'', ''3XLG''),
             (''4XL'', ''4XLG''), (''5XL'', ''5XLG'')]"

definition STYLES_USING_G_SIZES :: "size_rule list" where
  "STYLES_USING_G_SIZES =
     [StyleRule ''2278'', StyleRule ''3483'', StyleColorRule ''2795'' ''SILVER'']"

text \<open>\<open>table.get(size, size)\<close>: only a string can equal a key of the table.\<close>

definition dict_get_or_self :: "(string \<rightharpoonup> string) \<Rightarrow> pyval \<Rightarrow> pyval" where
  "dict_get_or_self table size' =
     (case size' of
        PStr s \<Rightarrow> (case table s of Some m \<Rightarrow> PStr m | None \<Rightarrow> size')
      | _ \<Rightarrow> size')"

text \<open>
  \<open>apply_conditional_size_mapping\<close>. The row is given by the three cells the function
  reads (\<open>Style\<close>, \<open>Color\<close>, \<open>Size\<close>); the table is the module global the function reads,
  made a parameter. The comparisons are Python's \<open>==\<close> on the raw parsed values.
\<close>

fun apply_conditional_size_mapping ::
  "(string \<rightharpoonup> string) \<Rightarrow> pyval \<Rightarrow> pyval \<Rightarrow> pyval \<Rightarrow> size_rule list \<Rightarrow> pyval" where
  "apply_conditional_size_mapping table style color size' [] = size'"
| "apply_conditional_size_mapping table style color size' (StyleColorRule s c # rest) =
     (if (style, color) = (PStr s, PStr c) then dict_get_or_self table size'
      else apply_conditional_size_mapping table style color size' rest)"
| "apply_conditional_size_mapping table style color size' (StyleRule s # rest) =
     (if style = PStr s then dict_get_or_self table size'
      else apply_conditional_size_mapping table style color size' rest)"

text \<open>Whether a rule applies to a row, as the loop body tests it.\<close>

fun rule_matches :: "pyval \<Rightarrow> pyval \<Rightarrow> size_rule \<Rightarrow> bool" where
  "rule_matches style color (StyleRule s) = (style = PStr s)"
| "rule_matches style color (StyleColorRule s c) = (style = PStr s \<and> color = PStr c)"

section \<open>Matcher, price-matching mode\<close>

text \<open>
  A data frame is the list of its rows. The columns a table is loaded with are fields of
  the row; the columns \<open>match_prices\<close> assigns are a group that is absent (\<open>None\<close>) on a
  freshly loaded table. A price cell is a number, or missing (\<open>None\<close>: the \<open>NaN\<close> of an
  empty cell, which \<open>isna()\<close> and \<open>notna()\<close> test).
\<close>

type_synonym price_cell = "rat option"

record oitm_cols =
  Style :: pyval
  Color :: pyval
  Size :: pyval
  Variable :: pyval
  Size_Mapped :: pyval
  Style_norm :: string
  Color_norm :: string
  Size_norm :: string
  Size_Mapped_norm :: string
  Variable_norm :: string
  Lookup_Key_4_Mapped :: string
  Lookup_Key_3_Mapped :: string
  Price :: price_cell

record oitm_row =
  Item_No :: pyval
  oitm_added :: "oitm_cols option"

record vpl_cols =
  V_Style_norm :: string
  V_Color_norm :: string
  V_Size_norm :: string
  V_Variable_norm :: string
  Lookup_Key_4 :: string
  Lookup_Key_3 :: string

record vpl_row =
  Vendor_Style :: pyval
  V_Color :: pyval
  V_Size :: pyval
  V_Variable :: pyval
  V_Price :: price_cell
  vpl_added :: "vpl_cols option"

text \<open>\<open>column.astype(str).str.upper().str.strip()\<close>, on one cell.\<close>

definition norm_field :: "pyval \<Rightarrow> string" where
  "norm_field v = strip (upper (py_str v))"

text \<open>\<open>column.fillna('').astype(str).str.upper().str.strip()\<close>, on one cell.\<close>

definition norm_variable :: "pyval \<Rightarrow> string" where
  "norm_variable v = norm_field (if isna v then PStr '''' else v)"

text \<open>\<open>dict(zip(keys, values))\<close>: pairs are inserted in order, a later pair overwrites.\<close>

definition py_dict :: "('k \<times> 'v) list \<Rightarrow> ('k \<rightharpoonup> 'v)" where
  "py_dict kvs = foldl (\<lambda>m (k, v). m(k \<mapsto> v)) Map.empty kvs"

text \<open>\<open>series.map(d)\<close>, on one cell: a key that is not in the dictionary gives \<open>NaN\<close>.\<close>

definition series_map :: "(string \<rightharpoonup> price_cell) \<Rightarrow> string \<Rightarrow> price_cell" where
  "series_map d k = (case d k of None \<Rightarrow> None | Some p \<Rightarrow> p)"

text \<open>Running a computation that may raise over every row, in order.\<close>

fun emap :: "('a \<Rightarrow> py_error + 'b) \<Rightarrow> 'a list \<Rightarrow> py_error + 'b list" where
  "emap f [] = Inr []"
| "emap f (x # xs) = ebind (f x) (\<lambda>y. ebind (emap f xs) (\<lambda>ys. Inr (y # ys)))"

text \<open>The columns \<open>match_prices\<close> assigns to one vendor row.\<close>

definition vpl_columns :: "vpl_row \<Rightarrow> vpl_cols" where
  "vpl_columns v =
     (let style_norm = norm_field (Vendor_Style v);
          color_norm = norm_field (V_Color v);
          size_norm = norm_field (V_Size v);
          variable_norm = norm_variable (V_Variable v)
      in \<lparr>V_Style_norm = style_norm,
          V_Color_norm = color_norm,
          V_Size_norm = size_norm,
          V_Variable_norm = variable_norm,
          Lookup_Key_4 =
            style_norm @ ''|'' @ color_norm @ ''|'' @ size_norm @ ''|'' @ variable_norm,
          Lookup_Key_3 = style_norm @ ''|'' @ color_norm @ ''|'' @ size_norm\<rparr>)"

text \<open>The two key columns of the vendor table, read off a vendor row.\<close>

definition vpl_key4 :: "vpl_row \<Rightarrow> string" where
  "vpl_key4 v = Lookup_Key_4 (vpl_columns v)"

definition vpl_key3 :: "vpl_row \<Rightarrow> string" where
  "vpl_key3 v = Lookup_Key_3 (vpl_columns v)"

text \<open>
  The columns \<open>match_prices\<close> assigns to one internal row, given the two price
  dictionaries: parse, map the size, normalise, build the keys, look the price up in
  \<open>price_lookup_4\<close> and, where that gave no price (\<open>isna()\<close>), in \<open>price_lookup_3\<close>.
\<close>

definition oitm_columns ::
  "(string \<rightharpoonup> string) \<Rightarrow> size_rule list \<Rightarrow> (string \<rightharpoonup> price_cell) \<Rightarrow> (string \<rightharpoonup> price_cell)
     \<Rightarrow> oitm_row \<Rightarrow> py_error + oitm_cols" where
  "oitm_columns table styles_using_g_sizes price_lookup_4 price_lookup_3 r =
     ebind (parse_item_no (Item_No r)) (\<lambda>(style, color, size, variable).
       let size_mapped =
             apply_conditional_size_mapping table style color size styles_using_g_sizes;
           style_norm = norm_field style;
           color_norm = norm_field color;
           size_norm = norm_field size;
           size_mapped_norm = norm_field size_mapped;
           variable_norm = norm_variable variable;
           key4 = style_norm @ ''|'' @ color_norm @ ''|'' @ size_mapped_norm @ ''|''
                  @ variable_norm;
           key3 = style_norm @ ''|'' @ color_norm @ ''|'' @ size_mapped_norm;
           price4 = series_map price_lookup_4 key4;
           price = (if price4 = None then series_map price_lookup_3 key3 else price4)
       in Inr \<lparr>Style = style, Color = color, Size = size, Variable = variable,
               Size_Mapped = size_mapped,
               Style_norm = style_norm, Color_norm = color_norm, Size_norm = size_norm,
               Size_Mapped_norm = size_mapped_norm, Variable_norm = variable_norm,
               Lookup_Key_4_Mapped = key4, Lookup_Key_3_Mapped = key3,
               Price = price\<rparr>)"

text \<open>The two dictionaries \<open>price_lookup_4\<close> and \<open>price_lookup_3\<close> of \<open>match_prices\<close>.\<close>

definition price_lookup_4 :: "vpl_row list \<Rightarrow> (string \<rightharpoonup> price_cell)" where
  "price_lookup_4 vpl_df = py_dict (zip (map vpl_key4 vpl_df) (map V_Price vpl_df))"

definition price_lookup_3 :: "vpl_row list \<Rightarrow> (string \<rightharpoonup> price_cell)" where
  "price_lookup_3 vpl_df = py_dict (zip (map vpl_key3 vpl_df) (map V_Price vpl_df))"

text \<open>
  \<open>match_prices\<close>. Both tables are updated in place; the model returns the two tables as
  they are after the call (the code returns the first, and the caller still holds the
  second). An exception leaves the call without a result. The size table is the module
  global \<open>SIZE_MAPPING\<close>, made a parameter.

  The first statement assigns the four columns \<open>Style\<close>, \<open>Color\<close>, \<open>Size\<close>, \<open>Variable\<close>
  from \<open>oitm_df['Item No.'].apply(lambda x: pd.Series(parse_item_no(x)))\<close>. On a table
  without rows \<open>apply\<close> gives an empty Series instead of a four-column frame, and the
  assignment raises \<open>ValueError\<close> (pandas 2) before either table has been changed.
\<close>

definition match_prices ::
  "(string \<rightharpoonup> string) \<Rightarrow> oitm_row list \<Rightarrow> vpl_row list \<Rightarrow> size_rule list
     \<Rightarrow> py_error + (oitm_row list \<times> vpl_row list)" where
  "match_prices table oitm_df vpl_df styles_using_g_sizes =
     (if oitm_df = [] then Inl ValueError
      else
        ebind
          (emap (\<lambda>r. ebind
                   (oitm_columns table styles_using_g_sizes
                      (price_lookup_4 vpl_df) (price_lookup_3 vpl_df) r)
                   (\<lambda>cols. Inr (r\<lparr>oitm_added := Some cols\<rparr>)))
             oitm_df)
          (\<lambda>oitm_df'.
             Inr (oitm_df', map (\<lambda>v. v\<lparr>vpl_added := Some (vpl_columns v)\<rparr>) vpl_df)))"

text \<open>
  Reading the \<open>Price\<close> column and the parsed columns of a row after \<open>match_prices\<close>
  (every read below follows the call that assigns the columns). \<open>row_size_changed\<close> is
  one cell of the mask \<open>oitm_df['Size'] != oitm_df['Size_Mapped']\<close>: the elementwise
  comparison of pandas is true wherever one of the two cells is missing, also when both
  are.
\<close>

definition row_price :: "oitm_row \<Rightarrow> price_cell" where
  "row_price r = (case oitm_added r of None \<Rightarrow> None | Some c \<Rightarrow> Price c)"

definition row_size_changed :: "oitm_row \<Rightarrow> bool" where
  "row_size_changed r =
     (case oitm_added r of
        None \<Rightarrow> False
      | Some c \<Rightarrow> isna (Size c) \<or> isna (Size_Mapped c) \<or> Size c \<noteq> Size_Mapped c)"

section \<open>Price-matching mode: one vendor pair, and the report\<close>

text \<open>
  The output directory is a map from file names to the data rows of the sheet saved under
  that name (the two header rows and the cell styles are left out). A table the caller
  could not load is an exception raised by the read inside the \<open>try\<close> block. The column
  checks of \<open>process_vendor\<close> hold by the row types, and saving a workbook is taken to
  succeed. The float \<open>match_rate\<close> is kept as the exact quotient.
\<close>

type_synonym price_files = "string \<rightharpoonup> (pyval \<times> price_cell) list"

record price_result =
  vendor :: string
  total_skus :: nat
  matched_skus :: nat
  removed_skus :: nat
  match_rate :: rat
  size_mapped :: nat
  output_file :: string
  removed_items :: "pyval list"

definition create_output_file ::
  "oitm_row list \<Rightarrow> string \<Rightarrow> price_files \<Rightarrow> string \<times> price_files" where
  "create_output_file oitm_filtered vendor_name output_dir =
     (let output_path = vendor_name @ ''_OITM_Updated.xlsx''
      in (output_path,
          output_dir(output_path \<mapsto> map (\<lambda>r. (Item_No r, row_price r)) oitm_filtered)))"

text \<open>The body of the \<open>try\<close> block of \<open>process_vendor\<close>.\<close>

definition process_vendor_try ::
  "(string \<rightharpoonup> string) \<Rightarrow> string \<Rightarrow> py_error + oitm_row list \<Rightarrow> py_error + vpl_row list
     \<Rightarrow> price_files \<Rightarrow> size_rule list \<Rightarrow> py_error + (price_result \<times> price_files)" where
  "process_vendor_try table vendor_name oitm_file vpl_file output_dir styles_using_g_sizes =
     ebind oitm_file (\<lambda>oitm_df.
     ebind vpl_file (\<lambda>vpl_df.
     ebind (match_prices table oitm_df vpl_df styles_using_g_sizes) (\<lambda>(oitm_df, vpl_df).
       let total = length oitm_df;
           matched = length (filter (\<lambda>r. row_price r \<noteq> None) oitm_df);
           removed = total - matched;
           rate = (if total > 0 then of_nat matched / of_nat total * 100 else 0);
           size_mapped_count =
             length (filter (\<lambda>r. row_price r \<noteq> None \<and> row_size_changed r) oitm_df);
           removed_list = map Item_No (filter (\<lambda>r. row_price r = None) oitm_df);
           oitm_filtered = filter (\<lambda>r. row_price r \<noteq> None) oitm_df;
           (output_path, output_dir') = create_output_file oitm_filtered vendor_name output_dir
       in Inr (\<lparr>vendor = vendor_name,
                 total_skus = total,
                 matched_skus = matched,
                 removed_skus = removed,
                 match_rate = rate,
                 size_mapped = size_mapped_count,
                 output_file = output_path,
                 removed_items = removed_list\<rparr>,
               output_dir'))))"

text \<open>\<open>process_vendor\<close>: \<open>except Exception\<close> turns every exception into the result \<open>None\<close>.\<close>

definition process_vendor ::
  "(string \<rightharpoonup> string) \<Rightarrow> string \<Rightarrow> py_error + oitm_row list \<Rightarrow> py_error + vpl_row list
     \<Rightarrow> price_files \<Rightarrow> size_rule list \<Rightarrow> price_result option \<times> price_files" where
  "process_vendor table vendor_name oitm_file vpl_file output_dir styles_using_g_sizes =
     (case process_vendor_try table vendor_name oitm_file vpl_file output_dir
             styles_using_g_sizes of
        Inl e \<Rightarrow> (None, output_dir)
      | Inr (result, output_dir') \<Rightarrow> (Some result, output_dir'))"

text \<open>The loop of \<open>main\<close> over the file pairs: a result that is not \<open>None\<close> is appended.\<close>

fun process_all ::
  "(string \<rightharpoonup> string) \<Rightarrow> size_rule list
     \<Rightarrow> (string \<times> (py_error + oitm_row list) \<times> (py_error + vpl_row list)) list
     \<Rightarrow> price_result list \<Rightarrow> price_files \<Rightarrow> price_result list \<times> price_files" where
  "process_all table rules [] results output_dir = (results, output_dir)"
| "process_all table rules ((vendor_name, oitm_file, vpl_file) # file_pairs) results output_dir =
     (case process_vendor table vendor_name oitm_file vpl_file output_dir rules of
        (None, output_dir') \<Rightarrow> process_all table rules file_pairs results output_dir'
      | (Some result, output_dir') \<Rightarrow>
          process_all table rules file_pairs (results @ [result]) output_dir')"

text \<open>
  \<open>create_summary_report\<close>: the rows appended to the sheet "Processing Summary" (without
  the formatted match rate and the totals row), and the rows appended to the sheet
  "Removed SKUs" (vendor, item number, reason).
\<close>

definition summary_rows :: "price_result list \<Rightarrow> (string \<times> nat \<times> nat \<times> nat \<times> string) list" where
  "summary_rows results =
     map (\<lambda>result. (vendor result, total_skus result, matched_skus result,
                     removed_skus result, output_file result)) results"


section \<open>Matcher, discontinuation mode\<close>

text \<open>
  The tables of \<open>find_discontinued_items.py\<close>. A vendor table without a \<open>Variable\<close>
  column gets one filled with \<open>None\<close>, so the cell is \<open>PNone\<close> there. The column
  \<open>Lookup_Key\<close> the function adds to each table is the second component of a keyed row.
  The output directory maps a file name to the data rows (item code, \<open>frozenFor\<close>,
  \<open>validFor\<close>) of the sheet saved under it. The result of a run is a dictionary; the key
  \<open>items_list\<close> is present only in the one returned after a sheet has been written, so the
  field is \<open>None\<close> where the dictionary has no such key.
\<close>

record dtw_row =
  D_Vendor_Style :: pyval
  Style_Name :: pyval
  D_Color :: pyval
  D_Size :: pyval
  D_Variable :: pyval

record disc_oitm_row =
  ItemCode :: pyval

type_synonym disc_files = "string \<rightharpoonup> (pyval \<times> string \<times> string) list"

record disc_result =
  d_vendor :: string
  total_oitm :: nat
  discontinued_in_dtw :: nat
  matched_to_deactivate :: nat
  d_output_file :: "string option"
  items_list :: "pyval list option"

text \<open>\<open>series.str.contains(pat)\<close> for a pattern without regular-expression operators.\<close>

definition py_contains :: "string \<Rightarrow> string \<Rightarrow> bool" where
  "py_contains pat s = sublist pat s"

text \<open>The mask \<open>astype(str).str.upper().str.contains('DISCONTINUED')\<close>, on one row.\<close>

definition is_discontinued :: "dtw_row \<Rightarrow> bool" where
  "is_discontinued r = py_contains ''DISCONTINUED'' (upper (py_str (Style_Name r)))"

text \<open>The \<open>Lookup_Key\<close> cell of an internal row and of a vendor row.\<close>

definition oitm_lookup_key :: "disc_oitm_row \<Rightarrow> py_error + string" where
  "oitm_lookup_key r =
     ebind (parse_item_no_disc (ItemCode r)) (\<lambda>(style, color, size, variable).
       Inr (create_lookup_key style color size variable))"

definition dtw_lookup_key :: "dtw_row \<Rightarrow> string" where
  "dtw_lookup_key r = create_lookup_key (D_Vendor_Style r) (D_Color r) (D_Size r) (D_Variable r)"

text \<open>
  The body of the \<open>try\<close> block of \<open>find_discontinued_items\<close>. The assignment of the four
  parsed columns raises \<open>ValueError\<close> on an internal table without rows, as it does in
  \<open>match_prices\<close>; a vendor table without rows gets an empty \<open>Lookup_Key\<close> column.
\<close>

definition find_discontinued_items_try ::
  "string \<Rightarrow> py_error + disc_oitm_row list \<Rightarrow> py_error + dtw_row list \<Rightarrow> disc_files
     \<Rightarrow> py_error + (disc_result \<times> disc_files)" where
  "find_discontinued_items_try vendor_name oitm_file dtw_file output_dir =
     ebind oitm_file (\<lambda>oitm_df.
     ebind dtw_file (\<lambda>dtw_df.
     ebind (if oitm_df = [] then Inl ValueError
            else emap (\<lambda>r. ebind (oitm_lookup_key r) (\<lambda>k. Inr (r, k))) oitm_df) (\<lambda>oitm_keyed.
       let dtw_keyed = map (\<lambda>r. (r, dtw_lookup_key r)) dtw_df;
           discontinued_dtw = filter (\<lambda>(r, k). is_discontinued r) dtw_keyed
       in if length discontinued_dtw = 0 then
            Inr (\<lparr>d_vendor = vendor_name, total_oitm = length oitm_keyed,
                   discontinued_in_dtw = 0, matched_to_deactivate = 0,
                   d_output_file = None, items_list = None\<rparr>, output_dir)
          else
            let discontinued_lookup_keys = set (map snd discontinued_dtw);
                oitm_to_deactivate =
                  filter (\<lambda>(r, k). k \<in> discontinued_lookup_keys) oitm_keyed
            in if length oitm_to_deactivate = 0 then
                 Inr (\<lparr>d_vendor = vendor_name, total_oitm = length oitm_keyed,
                        discontinued_in_dtw = length discontinued_dtw,
                        matched_to_deactivate = 0,
                        d_output_file = None, items_list = None\<rparr>, output_dir)
               else
                 let output_path = vendor_name @ ''_DEACTIVATE_DTW.xlsx'';
                     sheet = map (\<lambda>(r, k). (ItemCode r, ''Y'', ''N'')) oitm_to_deactivate
                 in Inr (\<lparr>d_vendor = vendor_name, total_oitm = length oitm_keyed,
                           discontinued_in_dtw = length discontinued_dtw,
                           matched_to_deactivate = length oitm_to_deactivate,
                           d_output_file = Some output_path,
                           items_list = Some (map (\<lambda>(r, k). ItemCode r) oitm_to_deactivate)\<rparr>,
                         output_dir(output_path \<mapsto> sheet)))))"

text \<open>\<open>find_discontinued_items\<close>: every exception becomes the result \<open>None\<close>.\<close>

definition find_discontinued_items ::
  "string \<Rightarrow> py_error + disc_oitm_row list \<Rightarrow> py_error + dtw_row list \<Rightarrow> disc_files
     \<Rightarrow> disc_result option \<times> disc_files" where
  "find_discontinued_items vendor_name oitm_file dtw_file output_dir =
     (case find_discontinued_items_try vendor_name oitm_file dtw_file output_dir of
        Inl e \<Rightarrow> (None, output_dir)
      | Inr (result, output_dir') \<Rightarrow> (Some result, output_dir'))"

text \<open>The item codes written to the deactivation sheet of a vendor, in sheet order.\<close>

definition flagged_items ::
  "string \<Rightarrow> py_error + disc_oitm_row list \<Rightarrow> py_error + dtw_row list \<Rightarrow> pyval list" where
  "flagged_items vendor_name oitm_file dtw_file =
     (case snd (find_discontinued_items vendor_name oitm_file dtw_file Map.empty)
             (vendor_name @ ''_DEACTIVATE_DTW.xlsx'') of
        None \<Rightarrow> []
      | Some sheet \<Rightarrow> map fst sheet)"

text \<open>
  \<open>create_summary_report\<close> of the discontinuation script: the rows appended to the
  sheet "Deactivation Summary" (without the totals row).
\<close>

definition disc_summary_rows :: "disc_result list \<Rightarrow> (string \<times> nat \<times> nat \<times> nat \<times> string) list" where
  "disc_summary_rows results =
     map (\<lambda>result. (d_vendor result, total_oitm result, discontinued_in_dtw result,
                     matched_to_deactivate result,
                     (case d_output_file result of
                        Some name \<Rightarrow> name
                      | None \<Rightarrow> ''No items to deactivate''))) results"

section \<open>Notions used in the statements\<close>

text \<open>The hyphen segments of an item code.\<close>

definition segments :: "pyval \<Rightarrow> string list" where
  "segments item_no = py_split CHR ''-'' (py_str item_no)"

text \<open>
  A variant counts as absent when it is a missing value, or when, trimmed and
  uppercased, it is the empty string, \<open>NONE\<close> or \<open>NAN\<close>.
\<close>

definition variant_absent :: "pyval \<Rightarrow> bool" where
  "variant_absent v = (isna v \<or> norm_field v \<in> {'''', ''NONE'', ''NAN''})"

text \<open>The last row of a table that satisfies a condition.\<close>

definition last_row_with :: "('a \<Rightarrow> bool) \<Rightarrow> 'a list \<Rightarrow> 'a option" where
  "last_row_with P rows = List.find P (rev rows)"

text \<open>
  The two lookup keys of an internal item with the given parsed fields, as
  \<open>match_prices\<close> builds \<open>Lookup_Key_3_Mapped\<close> and \<open>Lookup_Key_4_Mapped\<close>.
\<close>

definition internal_key3 ::
  "(string \<rightharpoonup> string) \<Rightarrow> size_rule list \<Rightarrow> pyval \<Rightarrow> pyval \<Rightarrow> pyval \<Rightarrow> string" where
  "internal_key3 table rules style color size' =
     norm_field style @ ''|'' @ norm_field color @ ''|''
     @ norm_field (apply_conditional_size_mapping table style color size' rules)"

definition internal_key4 ::
  "(string \<rightharpoonup> string) \<Rightarrow> size_rule list \<Rightarrow> pyval \<Rightarrow> pyval \<Rightarrow> pyval \<Rightarrow> pyval \<Rightarrow> string" where
  "internal_key4 table rules style color size' variable =
     internal_key3 table rules style color size' @ ''|'' @ norm_variable variable"


text \<open>Freshly loaded rows, for the examples.\<close>

definition oitm_item :: "string \<Rightarrow> oitm_row" where
  "oitm_item code = \<lparr>Item_No = PStr code, oitm_added = None\<rparr>"

definition vpl_item :: "pyval \<Rightarrow> pyval \<Rightarrow> pyval \<Rightarrow> pyval \<Rightarrow> price_cell \<Rightarrow> vpl_row" where
  "vpl_item style color size' variable price =
     \<lparr>Vendor_Style = style, V_Color = color, V_Size = size', V_Variable = variable,
      V_Price = price, vpl_added = None\<rparr>"

text \<open>
  The price the vendor table gives for a key of either tier: the price cell of the last
  vendor row that carries the key, and no price when no row carries it.
\<close>

definition key4_price :: "vpl_row list \<Rightarrow> string \<Rightarrow> price_cell" where
  "key4_price vpl_df k =
     (case last_row_with (\<lambda>v. vpl_key4 v = k) vpl_df of None \<Rightarrow> None | Some v \<Rightarrow> V_Price v)"

definition key3_price :: "vpl_row list \<Rightarrow> string \<Rightarrow> price_cell" where
  "key3_price vpl_df k =
     (case last_row_with (\<lambda>v. vpl_key3 v = k) vpl_df of None \<Rightarrow> None | Some v \<Rightarrow> V_Price v)"

text \<open>The \<open>Price\<close> column of the internal table after \<open>match_prices\<close>.\<close>

definition price_column ::
  "(string \<rightharpoonup> string) \<Rightarrow> oitm_row list \<Rightarrow> vpl_row list \<Rightarrow> size_rule list
     \<Rightarrow> price_cell list option" where
  "price_column table oitm_df vpl_df rules =
     (case match_prices table oitm_df vpl_df rules of
        Inl e \<Rightarrow> None
      | Inr (oitm_df', vpl_df') \<Rightarrow> Some (map row_price oitm_df'))"

text \<open>The lookup key of an internal row in discontinuation mode.\<close>

definition disc_item_key :: "disc_oitm_row \<Rightarrow> string" where
  "disc_item_key r = (case oitm_lookup_key r of Inl e \<Rightarrow> [] | Inr k \<Rightarrow> k)"

text \<open>
  The keys of the discontinued vendor rows, and the internal rows whose key is one of
  them, in table order.
\<close>

definition discontinued_keys :: "dtw_row list \<Rightarrow> string set" where
  "discontinued_keys dtw_df = set (map dtw_lookup_key (filter is_discontinued dtw_df))"

definition items_to_deactivate :: "disc_oitm_row list \<Rightarrow> dtw_row list \<Rightarrow> disc_oitm_row list" where
  "items_to_deactivate oitm_df dtw_df =
     filter (\<lambda>r. disc_item_key r \<in> discontinued_keys dtw_df) oitm_df"

text \<open>Freshly loaded rows of the discontinuation tables, for the examples.\<close>

definition disc_item :: "string \<Rightarrow> disc_oitm_row" where
  "disc_item code = \<lparr>ItemCode = PStr code\<rparr>"

definition dtw_item :: "pyval \<Rightarrow> string \<Rightarrow> pyval \<Rightarrow> pyval \<Rightarrow> pyval \<Rightarrow> dtw_row" where
  "dtw_item style name color size' variable =
     \<lparr>D_Vendor_Style = style, Style_Name = PStr name, D_Color = color, D_Size = size',
      D_Variable = variable\<rparr>"

section \<open>Properties of the string operations\<close>

lemma py_split_nonempty: "py_split sep s \<noteq> []"
  by (induction s) (auto split: list.splits)

lemma py_index_nat: "k < length xs \<Longrightarrow> py_index xs (int k) = Inr (xs ! k)"
  by (simp add: py_index_def Let_def)

lemma py_index_back:
  "0 < k \<Longrightarrow> k \<le> length xs \<Longrightarrow> py_index xs (- int k) = Inr (xs ! (length xs - k))"
  by (simp add: py_index_def Let_def nat_diff_distrib' del: of_nat_diff)

lemma py_slice_middle: "py_slice xs 1 (- 2) = take (length xs - 3) (drop 1 xs)"
  by (auto simp: py_slice_def Let_def max_def min_def intro!: arg_cong2[where f=take])

lemma strip_Nil_iff: "strip s = [] \<longleftrightarrow> (\<forall>c \<in> set s. is_space c)"
proof -
  have "strip s = [] \<longleftrightarrow> (\<forall>c \<in> set (dropWhile is_space s). is_space c)"
    by (simp add: strip_def dropWhile_eq_Nil_conv)
  also have "\<dots> \<longleftrightarrow> dropWhile is_space s = []"
  proof
    assume a: "\<forall>c \<in> set (dropWhile is_space s). is_space c"
    show "dropWhile is_space s = []"
    proof (rule ccontr)
      assume ne: "dropWhile is_space s \<noteq> []"
      then have "\<not> is_space (hd (dropWhile is_space s))" by (rule hd_dropWhile)
      moreover from ne have "hd (dropWhile is_space s) \<in> set (dropWhile is_space s)" by simp
      ultimately show False using a by blast
    qed
  qed (auto dest: set_dropWhileD)
  also have "\<dots> \<longleftrightarrow> (\<forall>c \<in> set s. is_space c)"
    by (simp add: dropWhile_eq_Nil_conv)
  finally show ?thesis .
qed

lemma is_space_to_upper: "is_space (to_upper c) = is_space c"
  by (auto simp: to_upper_def is_space_def Let_def)

lemma strip_upper_Nil_iff: "strip (upper s) = [] \<longleftrightarrow> strip s = []"
  by (simp add: strip_Nil_iff upper_def is_space_to_upper)

section \<open>Properties of \<open>parse_item_no\<close>\<close>

lemma parse_item_no_cases:
  "parse_item_no x =
     (if length (segments x) = 3 then
        Inr (PStr (segments x ! 0), PStr (segments x ! 1), PStr (segments x ! 2), PNone)
      else if length (segments x) = 4 then
        Inr (PStr (segments x ! 0), PStr (segments x ! 1), PStr (segments x ! 2),
             PStr (segments x ! 3))
      else if length (segments x) > 4 then
        Inr (PStr (hd (segments x)),
             PStr (py_join ''-'' (take (length (segments x) - 3) (drop 1 (segments x)))),
             PStr (segments x ! (length (segments x) - 2)), PStr (last (segments x)))
      else Inr (PNone, PNone, PNone, PNone))"
proof -
  define parts where "parts = segments x"
  define n where "n = length parts"
  have split: "py_split CHR ''-'' (py_str x) = parts"
    by (simp add: parts_def segments_def)
  consider (three) "n = 3" | (four) "n = 4" | (more) "n > 4" | (fewer) "n < 3"
    by linarith
  then have "parse_item_no x =
      (if n = 3 then Inr (PStr (parts ! 0), PStr (parts ! 1), PStr (parts ! 2), PNone)
       else if n = 4 then
         Inr (PStr (parts ! 0), PStr (parts ! 1), PStr (parts ! 2), PStr (parts ! 3))
       else if n > 4 then
         Inr (PStr (hd parts), PStr (py_join ''-'' (take (n - 3) (drop 1 parts))),
              PStr (parts ! (n - 2)), PStr (last parts))
       else Inr (PNone, PNone, PNone, PNone))"
  proof cases
    case three
    then have "py_index parts 0 = Inr (parts ! 0)" "py_index parts 1 = Inr (parts ! 1)"
        "py_index parts 2 = Inr (parts ! 2)"
      using py_index_nat [of 0 parts] py_index_nat [of 1 parts] py_index_nat [of 2 parts]
      by (simp_all add: n_def)
    with three show ?thesis
      by (simp add: parse_item_no_def split n_def [symmetric] ebind_def)
  next
    case four
    then have "py_index parts 0 = Inr (parts ! 0)" "py_index parts 1 = Inr (parts ! 1)"
        "py_index parts 2 = Inr (parts ! 2)" "py_index parts 3 = Inr (parts ! 3)"
      using py_index_nat [of 0 parts] py_index_nat [of 1 parts] py_index_nat [of 2 parts]
        py_index_nat [of 3 parts]
      by (simp_all add: n_def)
    with four show ?thesis
      by (simp add: parse_item_no_def split n_def [symmetric] ebind_def)
  next
    case more
    then have ne: "parts \<noteq> []" by (auto simp: n_def)
    from more have "py_index parts 0 = Inr (hd parts)"
      using py_index_nat [of 0 parts] by (simp add: n_def hd_conv_nth ne)
    moreover from more have "py_index parts (- 1) = Inr (last parts)"
      using py_index_back [of 1 parts] by (simp add: n_def last_conv_nth ne)
    moreover from more have "py_index parts (- 2) = Inr (parts ! (n - 2))"
      using py_index_back [of 2 parts] by (simp add: n_def)
    ultimately show ?thesis using more
      by (simp add: parse_item_no_def split n_def [symmetric] ebind_def py_slice_middle)
  next
    case fewer
    then show ?thesis
      by (simp add: parse_item_no_def split n_def [symmetric])
  qed
  then show ?thesis by (simp add: parts_def n_def)
qed

lemma parse_item_no_disc_eq: "parse_item_no_disc x = parse_item_no x"
  by (simp add: parse_item_no_disc_def parse_item_no_def)

lemma parse_item_no_total: "\<exists>t. parse_item_no x = Inr t"
  by (simp add: parse_item_no_cases)


text \<open>
  Claim C4. For every input, \<open>parse_item_no\<close> (in both scripts) returns a tuple and raises
  nothing: with exactly 3 segments the three segments and an absent variant; with exactly
  4 the four segments; with more than 4 the first segment, the middle segments rejoined
  with a hyphen, the second-to-last and the last segment; with fewer than 3 the
  all-\<open>None\<close> tuple.
\<close>

theorem parse_item_no_segments:
  "parse_item_no x =
     (if length (segments x) = 3 then
        Inr (PStr (segments x ! 0), PStr (segments x ! 1), PStr (segments x ! 2), PNone)
      else if length (segments x) = 4 then
        Inr (PStr (segments x ! 0), PStr (segments x ! 1), PStr (segments x ! 2),
             PStr (segments x ! 3))
      else if length (segments x) > 4 then
        Inr (PStr (hd (segments x)),
             PStr (py_join ''-'' (take (length (segments x) - 3) (drop 1 (segments x)))),
             PStr (segments x ! (length (segments x) - 2)), PStr (last (segments x)))
      else Inr (PNone, PNone, PNone, PNone))
   \<and> parse_item_no_disc x = parse_item_no x"
  using parse_item_no_cases [of x] parse_item_no_disc_eq [of x] by simp

theorem parse_item_no_segments_witness:
  "parse_item_no (PStr ''2795-SKY-BLUE-XL-7'')
     = Inr (PStr ''2795'', PStr ''SKY-BLUE'', PStr ''XL'', PStr ''7'')
   \<and> parse_item_no_disc (PStr ''A-RED'') = Inr (PNone, PNone, PNone, PNone)"
proof -
  have s1: "segments (PStr ''2795-SKY-BLUE-XL-7'') = [''2795'', ''SKY'', ''BLUE'', ''XL'', ''7'']"
    by code_simp
  have s2: "segments (PStr ''A-RED'') = [''A'', ''RED'']"
    by code_simp
  show ?thesis
    using parse_item_no_segments [of "PStr ''2795-SKY-BLUE-XL-7''"]
      parse_item_no_segments [of "PStr ''A-RED''"]
    by (simp add: s1 s2)
qed

section \<open>Properties of \<open>create_lookup_key\<close> and of the price-mode keys\<close>

lemma create_lookup_key_shape:
  "create_lookup_key style color size' variable =
     (if variant_absent variable
      then norm_field style @ ''|'' @ norm_field color @ ''|'' @ norm_field size'
      else norm_field style @ ''|'' @ norm_field color @ ''|'' @ norm_field size' @ ''|''
           @ norm_field variable)"
proof (cases "variant_absent variable")
  case True
  then have "isna variable \<or> variable = PNone \<or> strip (py_str variable) = ''''
      \<or> strip (upper (py_str variable)) \<in> set [''NONE'', ''NAN'']"
    by (auto simp: variant_absent_def norm_field_def strip_upper_Nil_iff)
  with True show ?thesis
    by (simp add: create_lookup_key_def norm_field_def Let_def)
next
  case False
  then have n: "\<not> isna variable" "norm_field variable \<noteq> ''''"
      "norm_field variable \<noteq> ''NONE''" "norm_field variable \<noteq> ''NAN''"
    by (auto simp: variant_absent_def)
  from n(1) have "variable \<noteq> PNone" by auto
  moreover from n(2) have "strip (py_str variable) \<noteq> ''''"
    by (simp add: norm_field_def strip_upper_Nil_iff)
  ultimately show ?thesis using False n
    by (simp add: create_lookup_key_def norm_field_def Let_def)
qed

lemma variant_absent_examples:
  "variant_absent (PStr '''')" "variant_absent PNone" "variant_absent PNaN"
  "variant_absent (PStr ''none'')"
  by (simp_all add: variant_absent_def) code_simp+

lemma norm_variable_eq: "norm_variable v = (if isna v then '''' else norm_field v)"
proof -
  have "norm_field (PStr '''') = ''''" by code_simp
  then show ?thesis by (simp add: norm_variable_def)
qed

lemma vpl_key3_eq:
  "vpl_key3 v = norm_field (Vendor_Style v) @ ''|'' @ norm_field (V_Color v) @ ''|''
                @ norm_field (V_Size v)"
  by (simp add: vpl_key3_def vpl_columns_def Let_def)

lemma vpl_key4_eq: "vpl_key4 v = vpl_key3 v @ ''|'' @ norm_variable (V_Variable v)"
  by (simp add: vpl_key4_def vpl_key3_def vpl_columns_def Let_def)

lemma oitm_columns_total: "\<exists>c. oitm_columns table rules d4 d3 r = Inr c"
proof -
  obtain style color size' variable
    where "parse_item_no (Item_No r) = Inr (style, color, size', variable)"
    using parse_item_no_total [of "Item_No r"] by (metis prod_cases4)
  then show ?thesis by (simp add: oitm_columns_def ebind_def Let_def)
qed

lemma oitm_columns_fields:
  assumes "oitm_columns table rules d4 d3 r = Inr c"
  shows "parse_item_no (Item_No r) = Inr (Style c, Color c, Size c, Variable c)"
    and "Size_Mapped c = apply_conditional_size_mapping table (Style c) (Color c) (Size c) rules"
    and "Style_norm c = norm_field (Style c)"
    and "Color_norm c = norm_field (Color c)"
    and "Size_norm c = norm_field (Size c)"
    and "Size_Mapped_norm c = norm_field (Size_Mapped c)"
    and "Variable_norm c = norm_variable (Variable c)"
    and "Lookup_Key_3_Mapped c = internal_key3 table rules (Style c) (Color c) (Size c)"
    and "Lookup_Key_4_Mapped c
           = internal_key4 table rules (Style c) (Color c) (Size c) (Variable c)"
    and "Price c =
           (if series_map d4 (Lookup_Key_4_Mapped c) = None
            then series_map d3 (Lookup_Key_3_Mapped c)
            else series_map d4 (Lookup_Key_4_Mapped c))"
proof -
  obtain style color size' variable
    where p: "parse_item_no (Item_No r) = Inr (style, color, size', variable)"
    using parse_item_no_total [of "Item_No r"] by (metis prod_cases4)
  with assms have c: "c = \<lparr>Style = style, Color = color, Size = size', Variable = variable,
      Size_Mapped = apply_conditional_size_mapping table style color size' rules,
      Style_norm = norm_field style, Color_norm = norm_field color,
      Size_norm = norm_field size',
      Size_Mapped_norm = norm_field (apply_conditional_size_mapping table style color size' rules),
      Variable_norm = norm_variable variable,
      Lookup_Key_4_Mapped = internal_key4 table rules style color size' variable,
      Lookup_Key_3_Mapped = internal_key3 table rules style color size',
      Price = (if series_map d4 (internal_key4 table rules style color size' variable) = None
               then series_map d3 (internal_key3 table rules style color size')
               else series_map d4 (internal_key4 table rules style color size' variable))\<rparr>"
    by (auto simp: oitm_columns_def ebind_def Let_def internal_key4_def internal_key3_def)
  show "parse_item_no (Item_No r) = Inr (Style c, Color c, Size c, Variable c)"
    by (simp add: c p)
  show "Size_Mapped c = apply_conditional_size_mapping table (Style c) (Color c) (Size c) rules"
    by (simp add: c)
  show "Style_norm c = norm_field (Style c)" by (simp add: c)
  show "Color_norm c = norm_field (Color c)" by (simp add: c)
  show "Size_norm c = norm_field (Size c)" by (simp add: c)
  show "Size_Mapped_norm c = norm_field (Size_Mapped c)" by (simp add: c)
  show "Variable_norm c = norm_variable (Variable c)" by (simp add: c)
  show "Lookup_Key_3_Mapped c = internal_key3 table rules (Style c) (Color c) (Size c)"
    by (simp add: c)
  show "Lookup_Key_4_Mapped c
          = internal_key4 table rules (Style c) (Color c) (Size c) (Variable c)"
    by (simp add: c)
  show "Price c =
          (if series_map d4 (Lookup_Key_4_Mapped c) = None
           then series_map d3 (Lookup_Key_3_Mapped c)
           else series_map d4 (Lookup_Key_4_Mapped c))"
    by (simp add: c)
qed

text \<open>
  Claim C2, as stated, fails for the price-matching pipeline: there the 4-part key of a
  vendor row whose variant is the string \<open>none\<close> ends in \<open>|NONE\<close>, and the 4-part key of a
  row with a missing variant ends in a bare \<open>|\<close>, while \<open>create_lookup_key\<close> gives the
  3-part form for both.
\<close>

theorem canonical_key_price_mode_counterexample:
  "vpl_key4 (vpl_item (PStr ''A'') (PStr ''RED'') (PStr ''M'') (PStr ''none'') (Some 10))
     = ''A|RED|M|NONE''
   \<and> vpl_key4 (vpl_item (PStr ''A'') (PStr ''RED'') (PStr ''M'') PNone (Some 10)) = ''A|RED|M|''
   \<and> create_lookup_key (PStr ''A'') (PStr ''RED'') (PStr ''M'') (PStr ''none'') = ''A|RED|M''
   \<and> create_lookup_key (PStr ''A'') (PStr ''RED'') (PStr ''M'') PNone = ''A|RED|M''"
  by code_simp

text \<open>
  Claim C2, amended. \<open>create_lookup_key\<close> (the discontinuation pipeline) gives
  \<open>STYLE|COLOR|SIZE|VARIANT\<close> of the stringified, uppercased, trimmed fields when the
  variant is present and \<open>STYLE|COLOR|SIZE\<close> when it is absent, a variant being absent when
  it is a missing value or normalises to the empty string, \<open>NONE\<close> or \<open>NAN\<close>; so the empty
  string, \<open>None\<close> and \<open>none\<close> all give the 3-part form. In price-matching mode the 3-part
  key is \<open>STYLE|COLOR|SIZE\<close> and the 4-part key is always the 3-part key, a \<open>|\<close>, and the
  normalised variant, where only a missing value becomes the empty string: for vendor rows
  and for internal rows alike.
\<close>

theorem canonical_key_shape:
  "create_lookup_key style color size' variable =
     (if variant_absent variable
      then norm_field style @ ''|'' @ norm_field color @ ''|'' @ norm_field size'
      else norm_field style @ ''|'' @ norm_field color @ ''|'' @ norm_field size' @ ''|''
           @ norm_field variable)
   \<and> create_lookup_key style color size' (PStr '''')
       = norm_field style @ ''|'' @ norm_field color @ ''|'' @ norm_field size'
   \<and> create_lookup_key style color size' PNone
       = norm_field style @ ''|'' @ norm_field color @ ''|'' @ norm_field size'
   \<and> create_lookup_key style color size' (PStr ''none'')
       = norm_field style @ ''|'' @ norm_field color @ ''|'' @ norm_field size'
   \<and> vpl_key3 v = norm_field (Vendor_Style v) @ ''|'' @ norm_field (V_Color v) @ ''|''
                  @ norm_field (V_Size v)
   \<and> vpl_key4 v
       = vpl_key3 v @ ''|'' @ (if isna (V_Variable v) then '''' else norm_field (V_Variable v))
   \<and> (oitm_columns table rules d4 d3 r = Inr c \<longrightarrow>
        Lookup_Key_3_Mapped c
          = norm_field (Style c) @ ''|'' @ norm_field (Color c) @ ''|''
            @ norm_field (Size_Mapped c)
        \<and> Lookup_Key_4_Mapped c
          = Lookup_Key_3_Mapped c @ ''|''
            @ (if isna (Variable c) then '''' else norm_field (Variable c)))"
proof -
  have "oitm_columns table rules d4 d3 r = Inr c \<longrightarrow>
        Lookup_Key_3_Mapped c
          = norm_field (Style c) @ ''|'' @ norm_field (Color c) @ ''|''
            @ norm_field (Size_Mapped c)
        \<and> Lookup_Key_4_Mapped c
          = Lookup_Key_3_Mapped c @ ''|''
            @ (if isna (Variable c) then '''' else norm_field (Variable c))"
  proof
    assume a: "oitm_columns table rules d4 d3 r = Inr c"
    show "Lookup_Key_3_Mapped c
          = norm_field (Style c) @ ''|'' @ norm_field (Color c) @ ''|''
            @ norm_field (Size_Mapped c)
        \<and> Lookup_Key_4_Mapped c
          = Lookup_Key_3_Mapped c @ ''|''
            @ (if isna (Variable c) then '''' else norm_field (Variable c))"
      using oitm_columns_fields(2,8,9) [OF a]
      by (simp add: internal_key4_def internal_key3_def norm_variable_eq)
  qed
  then show ?thesis
    using create_lookup_key_shape variant_absent_examples
    by (simp add: vpl_key3_eq vpl_key4_eq norm_variable_eq)
qed

theorem canonical_key_shape_witness:
  "create_lookup_key (PInt 2278) (PStr '' Blue'') (PStr ''s'') (PStr '' x1 '') = ''2278|BLUE|S|X1''
   \<and> create_lookup_key (PInt 2278) (PStr '' Blue'') (PStr ''s'') PNaN = ''2278|BLUE|S''
   \<and> (\<exists>c. oitm_columns SIZE_MAPPING STYLES_USING_G_SIZES Map.empty Map.empty
             (oitm_item ''A-RED-M'') = Inr c
          \<and> Lookup_Key_3_Mapped c = ''A|RED|M'' \<and> Lookup_Key_4_Mapped c = ''A|RED|M|'')"
proof -
  obtain c where c: "oitm_columns SIZE_MAPPING STYLES_USING_G_SIZES Map.empty Map.empty
      (oitm_item ''A-RED-M'') = Inr c"
    using oitm_columns_total by blast
  have p: "parse_item_no (Item_No (oitm_item ''A-RED-M''))
             = Inr (PStr ''A'', PStr ''RED'', PStr ''M'', PNone)"
    by code_simp
  from oitm_columns_fields(1) [OF c] p
  have "(Style c, Color c, Size c, Variable c) = (PStr ''A'', PStr ''RED'', PStr ''M'', PNone)"
    by simp
  then have f0: "Style c = PStr ''A''" "Color c = PStr ''RED''" "Size c = PStr ''M''"
    "Variable c = PNone"
    by simp_all
  have "Size_Mapped c = PStr ''M''"
    using oitm_columns_fields(2) [OF c] by (simp add: f0 STYLES_USING_G_SIZES_def)
  note f = f0 this
  have n: "norm_field (PStr ''A'') = ''A''" "norm_field (PStr ''RED'') = ''RED''"
    "norm_field (PStr ''M'') = ''M''"
    by code_simp+
  have a: "\<not> variant_absent (PStr '' x1 '')" "norm_field (PStr '' x1 '') = ''X1''"
    "norm_field (PInt 2278) = ''2278''" "norm_field (PStr '' Blue'') = ''BLUE''"
    "norm_field (PStr ''s'') = ''S''" "variant_absent PNaN"
    by code_simp+
  have k: "Lookup_Key_3_Mapped c = ''A|RED|M'' \<and> Lookup_Key_4_Mapped c = ''A|RED|M|''"
    using canonical_key_shape [of style color size' variable v SIZE_MAPPING
        STYLES_USING_G_SIZES Map.empty Map.empty "oitm_item ''A-RED-M''" c] c
    by (simp add: f n)
  have "create_lookup_key (PInt 2278) (PStr '' Blue'') (PStr ''s'') (PStr '' x1 '')
          = ''2278|BLUE|S|X1''"
    using canonical_key_shape [of "PInt 2278" "PStr '' Blue''" "PStr ''s''" "PStr '' x1 ''"]
    by (simp add: a)
  moreover have "create_lookup_key (PInt 2278) (PStr '' Blue'') (PStr ''s'') PNaN
          = ''2278|BLUE|S''"
    using canonical_key_shape [of "PInt 2278" "PStr '' Blue''" "PStr ''s''" PNaN]
    by (simp add: a)
  ultimately show ?thesis using c k by blast
qed

section \<open>Properties of the size mapper\<close>

lemma apply_conditional_size_mapping_find:
  "apply_conditional_size_mapping table style color size' rules =
     (case find (rule_matches style color) rules of
        None \<Rightarrow> size'
      | Some r \<Rightarrow> dict_get_or_self table size')"
  by (induction table style color size' rules rule: apply_conditional_size_mapping.induct)
    simp_all



text \<open>
  Claim C5. For every style, color, size, rule list and mapping table, the size mapper
  returns, when some rule matches (the first one in list order; a bare-style rule matches
  on the style alone, a (style, color) rule on that exact pair), the table's entry for the
  size, or the size itself when the table has no entry for it; and the size unchanged when
  no rule matches. With the shipped configuration: style 2278 maps L to LG; style 9999
  leaves L unchanged; style 2795 with color SILVER maps XL to XLG; style 2795 with color
  BLUE leaves XL unchanged.
\<close>

theorem apply_conditional_size_mapping_first_match:
  "apply_conditional_size_mapping table style color size' rules =
     (case find (rule_matches style color) rules of
        None \<Rightarrow> size'
      | Some r \<Rightarrow>
          (case size' of
             PStr s \<Rightarrow> (case table s of Some m \<Rightarrow> PStr m | None \<Rightarrow> size')
           | _ \<Rightarrow> size'))
   \<and> rule_matches style color (StyleRule rs) = (style = PStr rs)
   \<and> rule_matches style color (StyleColorRule rs rc) = (style = PStr rs \<and> color = PStr rc)
   \<and> apply_conditional_size_mapping SIZE_MAPPING (PStr ''2278'') color (PStr ''L'')
        STYLES_USING_G_SIZES = PStr ''LG''
   \<and> apply_conditional_size_mapping SIZE_MAPPING (PStr ''9999'') color (PStr ''L'')
        STYLES_USING_G_SIZES = PStr ''L''
   \<and> apply_conditional_size_mapping SIZE_MAPPING (PStr ''2795'') (PStr ''SILVER'') (PStr ''XL'')
        STYLES_USING_G_SIZES = PStr ''XLG''
   \<and> apply_conditional_size_mapping SIZE_MAPPING (PStr ''2795'') (PStr ''BLUE'') (PStr ''XL'')
        STYLES_USING_G_SIZES = PStr ''XL''"
proof -
  have general: "apply_conditional_size_mapping table style color size' rules =
     (case find (rule_matches style color) rules of
        None \<Rightarrow> size'
      | Some r \<Rightarrow>
          (case size' of
             PStr s \<Rightarrow> (case table s of Some m \<Rightarrow> PStr m | None \<Rightarrow> size')
           | _ \<Rightarrow> size'))"
    by (simp add: apply_conditional_size_mapping_find dict_get_or_self_def
        split: option.splits)
  have e1: "apply_conditional_size_mapping SIZE_MAPPING (PStr ''2278'') color (PStr ''L'')
        STYLES_USING_G_SIZES = PStr ''LG''"
    by (simp add: STYLES_USING_G_SIZES_def SIZE_MAPPING_def dict_get_or_self_def)
  have e2: "apply_conditional_size_mapping SIZE_MAPPING (PStr ''9999'') color (PStr ''L'')
        STYLES_USING_G_SIZES = PStr ''L''"
    by (simp add: STYLES_USING_G_SIZES_def)
  have e3: "apply_conditional_size_mapping SIZE_MAPPING (PStr ''2795'') (PStr ''SILVER'')
        (PStr ''XL'') STYLES_USING_G_SIZES = PStr ''XLG''"
    by (simp add: STYLES_USING_G_SIZES_def SIZE_MAPPING_def dict_get_or_self_def)
  have e4: "apply_conditional_size_mapping SIZE_MAPPING (PStr ''2795'') (PStr ''BLUE'')
        (PStr ''XL'') STYLES_USING_G_SIZES = PStr ''XL''"
    by (simp add: STYLES_USING_G_SIZES_def)
  from general e1 e2 e3 e4 show ?thesis by simp
qed

theorem apply_conditional_size_mapping_first_match_witness:
  "apply_conditional_size_mapping (map_of [(''L'', ''LARGE'')]) (PStr ''77'') (PStr ''RED'')
     (PStr ''L'') [StyleColorRule ''77'' ''BLUE'', StyleRule ''77'', StyleRule ''78''] = PStr ''LARGE''
   \<and> apply_conditional_size_mapping (map_of [(''L'', ''LARGE'')]) (PStr ''77'') (PStr ''RED'')
     (PStr ''M'') [StyleColorRule ''77'' ''BLUE'', StyleRule ''77'', StyleRule ''78''] = PStr ''M''
   \<and> apply_conditional_size_mapping (map_of [(''L'', ''LARGE'')]) (PStr ''79'') (PStr ''RED'')
     (PStr ''L'') [StyleColorRule ''77'' ''BLUE'', StyleRule ''77'', StyleRule ''78''] = PStr ''L''"
  using apply_conditional_size_mapping_first_match
      [of "map_of [(''L'', ''LARGE'')]" "PStr ''77''" "PStr ''RED''" "PStr ''L''"
        "[StyleColorRule ''77'' ''BLUE'', StyleRule ''77'', StyleRule ''78'']"]
    apply_conditional_size_mapping_first_match
      [of "map_of [(''L'', ''LARGE'')]" "PStr ''77''" "PStr ''RED''" "PStr ''M''"
        "[StyleColorRule ''77'' ''BLUE'', StyleRule ''77'', StyleRule ''78'']"]
    apply_conditional_size_mapping_first_match
      [of "map_of [(''L'', ''LARGE'')]" "PStr ''79''" "PStr ''RED''" "PStr ''L''"
        "[StyleColorRule ''77'' ''BLUE'', StyleRule ''77'', StyleRule ''78'']"]
  by simp



section \<open>Properties of \<open>match_prices\<close>\<close>

lemma py_dict_snoc: "py_dict (kvs @ [(k, v)]) = (py_dict kvs)(k \<mapsto> v)"
  by (simp add: py_dict_def)

lemma py_dict_zip_map:
  "py_dict (zip (map f rows) (map g rows)) k = map_option g (last_row_with (\<lambda>x. f x = k) rows)"
proof (induction rows rule: rev_induct)
  case Nil
  show ?case by (simp add: py_dict_def last_row_with_def)
next
  case (snoc x rows)
  have "zip (map f (rows @ [x])) (map g (rows @ [x]))
          = zip (map f rows) (map g rows) @ [(f x, g x)]"
    by simp
  then show ?case using snoc
    by (simp add: py_dict_snoc last_row_with_def del: zip_append)
qed

lemma last_row_with_distinct:
  "distinct (map f rows) \<Longrightarrow> v \<in> set rows \<Longrightarrow> last_row_with (\<lambda>x. f x = f v) rows = Some v"
proof (induction rows rule: rev_induct)
  case Nil
  then show ?case by simp
next
  case (snoc x rows)
  then show ?case by (auto simp: last_row_with_def)
qed

lemma series_map_price_lookup_4: "series_map (price_lookup_4 vpl_df) k = key4_price vpl_df k"
  by (simp add: series_map_def price_lookup_4_def key4_price_def py_dict_zip_map
      split: option.splits)

lemma series_map_price_lookup_3: "series_map (price_lookup_3 vpl_df) k = key3_price vpl_df k"
  by (simp add: series_map_def price_lookup_3_def key3_price_def py_dict_zip_map
      split: option.splits)

lemma key4_price_distinct:
  "distinct (map vpl_key4 vpl_df) \<Longrightarrow> v \<in> set vpl_df \<Longrightarrow> key4_price vpl_df (vpl_key4 v) = V_Price v"
  by (simp add: key4_price_def last_row_with_distinct)

lemma emap_Inr_D: "emap f xs = Inr ys \<Longrightarrow> list_all2 (\<lambda>x y. f x = Inr y) xs ys"
proof (induction xs arbitrary: ys)
  case Nil
  then show ?case by simp
next
  case (Cons x xs)
  from Cons.prems obtain y ys' where "f x = Inr y" "emap f xs = Inr ys'" "ys = y # ys'"
    by (auto simp: ebind_def split: sum.splits)
  with Cons.IH show ?case by simp
qed

lemma emap_Inr_I: "list_all2 (\<lambda>x y. f x = Inr y) xs ys \<Longrightarrow> emap f xs = Inr ys"
  by (induction xs ys rule: list_all2_induct) (simp_all add: ebind_def)

lemma emap_total:
  assumes "\<And>x. x \<in> set xs \<Longrightarrow> \<exists>y. f x = Inr y"
  shows "\<exists>ys. emap f xs = Inr ys"
  using assms
proof (induction xs)
  case Nil
  show ?case by simp
next
  case (Cons x xs)
  then obtain y ys where "f x = Inr y" "emap f xs = Inr ys" by (meson list.set_intros)
  then show ?case by (simp add: ebind_def)
qed

text \<open>
  On an internal table without rows the call raises; on every other one it returns the
  vendor table with its six columns added, and each internal row with the thirteen columns
  that \<open>oitm_columns\<close> computes for it.
\<close>

lemma match_prices_no_rows: "match_prices table [] vpl_df rules = Inl ValueError"
  by (simp add: match_prices_def)

lemma match_prices_returns:
  assumes ne: "oitm_df \<noteq> []"
  shows "\<exists>oitm'. match_prices table oitm_df vpl_df rules
       = Inr (oitm', map (\<lambda>v. v\<lparr>vpl_added := Some (vpl_columns v)\<rparr>) vpl_df)
     \<and> list_all2 (\<lambda>r r'. \<exists>c. oitm_columns table rules (price_lookup_4 vpl_df)
                                (price_lookup_3 vpl_df) r = Inr c
                            \<and> r' = r\<lparr>oitm_added := Some c\<rparr>) oitm_df oitm'"
proof -
  define step where "step = (\<lambda>r. ebind
      (oitm_columns table rules (price_lookup_4 vpl_df) (price_lookup_3 vpl_df) r)
      (\<lambda>cols. Inr (r\<lparr>oitm_added := Some cols\<rparr>)))"
  have "\<exists>y. step x = Inr y" for x
    using oitm_columns_total [of table rules "price_lookup_4 vpl_df" "price_lookup_3 vpl_df" x]
    by (auto simp: step_def ebind_def)
  then obtain oitm' where e: "emap step oitm_df = Inr oitm'"
    using emap_total [of oitm_df step] by blast
  have "list_all2 (\<lambda>x y. step x = Inr y) oitm_df oitm'"
    using e by (rule emap_Inr_D)
  then have "list_all2 (\<lambda>r r'. \<exists>c. oitm_columns table rules (price_lookup_4 vpl_df)
                                (price_lookup_3 vpl_df) r = Inr c
                            \<and> r' = r\<lparr>oitm_added := Some c\<rparr>) oitm_df oitm'"
    by (rule list_all2_mono) (auto simp: step_def ebind_def split: sum.splits)
  moreover have "match_prices table oitm_df vpl_df rules
       = ebind (emap step oitm_df)
           (\<lambda>oitm_df'. Inr (oitm_df', map (\<lambda>v. v\<lparr>vpl_added := Some (vpl_columns v)\<rparr>) vpl_df))"
    using ne by (simp add: match_prices_def step_def)
  then have "match_prices table oitm_df vpl_df rules
       = Inr (oitm', map (\<lambda>v. v\<lparr>vpl_added := Some (vpl_columns v)\<rparr>) vpl_df)"
    by (simp add: e ebind_def)
  ultimately show ?thesis by blast
qed

lemma oitm_columns_price:
  assumes "oitm_columns table rules (price_lookup_4 vpl_df) (price_lookup_3 vpl_df) r = Inr c"
  shows "Price c =
           (if key4_price vpl_df (Lookup_Key_4_Mapped c) \<noteq> None
            then key4_price vpl_df (Lookup_Key_4_Mapped c)
            else key3_price vpl_df (Lookup_Key_3_Mapped c))"
  using oitm_columns_fields(10) [OF assms]
  by (simp add: series_map_price_lookup_4 series_map_price_lookup_3)



text \<open>
  Claim C1, as stated, fails where a vendor row carries the 4-part key with a missing
  price: the key is present in \<open>price_lookup_4\<close>, yet the 3-part key is looked up as
  well, and its price wins; and with such a row alone the item is unmatched although both
  of its keys are present in the dictionaries.
\<close>

theorem two_tier_lookup_counterexample:
  "price_lookup_4
      [vpl_item (PStr ''A'') (PStr ''RED'') (PStr ''M'') (PStr ''X'') None,
       vpl_item (PStr ''A'') (PStr ''RED'') (PStr ''M'') PNaN (Some 8)] ''A|RED|M|X'' = Some None
   \<and> price_column SIZE_MAPPING [oitm_item ''A-RED-M-X'']
      [vpl_item (PStr ''A'') (PStr ''RED'') (PStr ''M'') (PStr ''X'') None,
       vpl_item (PStr ''A'') (PStr ''RED'') (PStr ''M'') PNaN (Some 8)]
      STYLES_USING_G_SIZES = Some [Some 8]
   \<and> price_lookup_4
      [vpl_item (PStr ''A'') (PStr ''RED'') (PStr ''M'') (PStr ''X'') None] ''A|RED|M|X'' = Some None
   \<and> price_lookup_3
      [vpl_item (PStr ''A'') (PStr ''RED'') (PStr ''M'') (PStr ''X'') None] ''A|RED|M'' = Some None
   \<and> price_column SIZE_MAPPING [oitm_item ''A-RED-M-X'']
      [vpl_item (PStr ''A'') (PStr ''RED'') (PStr ''M'') (PStr ''X'') None]
      STYLES_USING_G_SIZES = Some [None]"
  by code_simp

text \<open>
  Claim C1, amended. In price-matching mode every internal item gets its price by a
  two-tier lookup on the keys built from its parsed fields: the price of the last vendor row carrying the item's 4-part key, when that row
  has a price; otherwise (no vendor row carries the 4-part key, or the last one that does
  has no price) the price of the last vendor row carrying the item's 3-part key; the item
  is unmatched when neither tier gives a price. In particular, when the vendor rows carry
  distinct 4-part keys, an item whose 4-part key is that of a vendor row with a price
  receives that row's price.
\<close>

theorem match_prices_two_tier:
  assumes ne: "oitm_df \<noteq> []"
  shows "\<exists>oitm' vpl'.
     match_prices table oitm_df vpl_df rules = Inr (oitm', vpl')
     \<and> length oitm' = length oitm_df
     \<and> (\<forall>i < length oitm_df. \<exists>c.
           oitm' ! i = (oitm_df ! i)\<lparr>oitm_added := Some c\<rparr>
         \<and> parse_item_no (Item_No (oitm_df ! i)) = Inr (Style c, Color c, Size c, Variable c)
         \<and> Lookup_Key_4_Mapped c
             = internal_key4 table rules (Style c) (Color c) (Size c) (Variable c)
         \<and> Lookup_Key_3_Mapped c = internal_key3 table rules (Style c) (Color c) (Size c)
         \<and> Price c =
             (if key4_price vpl_df (Lookup_Key_4_Mapped c) \<noteq> None
              then key4_price vpl_df (Lookup_Key_4_Mapped c)
              else key3_price vpl_df (Lookup_Key_3_Mapped c))
         \<and> (distinct (map vpl_key4 vpl_df) \<longrightarrow>
              (\<forall>v \<in> set vpl_df. vpl_key4 v = Lookup_Key_4_Mapped c \<and> V_Price v \<noteq> None
                 \<longrightarrow> Price c = V_Price v)))"
proof -
  obtain oitm' where m: "match_prices table oitm_df vpl_df rules
       = Inr (oitm', map (\<lambda>v. v\<lparr>vpl_added := Some (vpl_columns v)\<rparr>) vpl_df)"
    and rel: "list_all2 (\<lambda>r r'. \<exists>c. oitm_columns table rules (price_lookup_4 vpl_df)
                                (price_lookup_3 vpl_df) r = Inr c
                            \<and> r' = r\<lparr>oitm_added := Some c\<rparr>) oitm_df oitm'"
    using match_prices_returns [OF ne] by blast
  from rel have len: "length oitm' = length oitm_df"
    by (simp add: list_all2_lengthD)
  have rows: "\<exists>c.
           oitm' ! i = (oitm_df ! i)\<lparr>oitm_added := Some c\<rparr>
         \<and> parse_item_no (Item_No (oitm_df ! i)) = Inr (Style c, Color c, Size c, Variable c)
         \<and> Lookup_Key_4_Mapped c
             = internal_key4 table rules (Style c) (Color c) (Size c) (Variable c)
         \<and> Lookup_Key_3_Mapped c = internal_key3 table rules (Style c) (Color c) (Size c)
         \<and> Price c =
             (if key4_price vpl_df (Lookup_Key_4_Mapped c) \<noteq> None
              then key4_price vpl_df (Lookup_Key_4_Mapped c)
              else key3_price vpl_df (Lookup_Key_3_Mapped c))
         \<and> (distinct (map vpl_key4 vpl_df) \<longrightarrow>
              (\<forall>v \<in> set vpl_df. vpl_key4 v = Lookup_Key_4_Mapped c \<and> V_Price v \<noteq> None
                 \<longrightarrow> Price c = V_Price v))"
    if i: "i < length oitm_df" for i
  proof -
    from rel i obtain c
      where c: "oitm_columns table rules (price_lookup_4 vpl_df) (price_lookup_3 vpl_df)
                  (oitm_df ! i) = Inr c"
        and r: "oitm' ! i = (oitm_df ! i)\<lparr>oitm_added := Some c\<rparr>"
      by (auto dest: list_all2_nthD)
    have price: "Price c =
             (if key4_price vpl_df (Lookup_Key_4_Mapped c) \<noteq> None
              then key4_price vpl_df (Lookup_Key_4_Mapped c)
              else key3_price vpl_df (Lookup_Key_3_Mapped c))"
      using c by (rule oitm_columns_price)
    have "Price c = V_Price v"
      if "distinct (map vpl_key4 vpl_df)" "v \<in> set vpl_df"
        "vpl_key4 v = Lookup_Key_4_Mapped c" "V_Price v \<noteq> None" for v
      using price key4_price_distinct [OF that(1,2)] that(3,4) by simp
    then show ?thesis
      using r price oitm_columns_fields(1,8,9) [OF c] by blast
  qed
  from m len rows show ?thesis by blast
qed

theorem match_prices_two_tier_witness:
  "price_column SIZE_MAPPING [oitm_item ''A-RED-M-2'']
     [vpl_item (PStr ''A'') (PStr ''RED'') (PStr ''M'') (PStr ''1'') (Some 10),
      vpl_item (PStr ''A'') (PStr ''RED'') (PStr ''M'') PNaN (Some 8)]
     STYLES_USING_G_SIZES = Some [Some 8]"
proof -
  define oitm_df where "oitm_df = [oitm_item ''A-RED-M-2'']"
  define vpl_df where "vpl_df =
     [vpl_item (PStr ''A'') (PStr ''RED'') (PStr ''M'') (PStr ''1'') (Some 10),
      vpl_item (PStr ''A'') (PStr ''RED'') (PStr ''M'') PNaN (Some 8)]"
  have ne: "oitm_df \<noteq> []" by (simp add: oitm_df_def)
  from match_prices_two_tier [OF ne, of SIZE_MAPPING vpl_df STYLES_USING_G_SIZES]
  obtain oitm' vpl' c
    where m: "match_prices SIZE_MAPPING oitm_df vpl_df STYLES_USING_G_SIZES = Inr (oitm', vpl')"
      and len: "length oitm' = 1"
      and r: "oitm' ! 0 = (oitm_df ! 0)\<lparr>oitm_added := Some c\<rparr>"
      and k4: "Lookup_Key_4_Mapped c
             = internal_key4 SIZE_MAPPING STYLES_USING_G_SIZES (Style c) (Color c) (Size c)
                 (Variable c)"
      and k3: "Lookup_Key_3_Mapped c
             = internal_key3 SIZE_MAPPING STYLES_USING_G_SIZES (Style c) (Color c) (Size c)"
      and p: "parse_item_no (Item_No (oitm_df ! 0)) = Inr (Style c, Color c, Size c, Variable c)"
      and price: "Price c =
             (if key4_price vpl_df (Lookup_Key_4_Mapped c) \<noteq> None
              then key4_price vpl_df (Lookup_Key_4_Mapped c)
              else key3_price vpl_df (Lookup_Key_3_Mapped c))"
    by (auto simp: oitm_df_def)
  have "parse_item_no (Item_No (oitm_df ! 0))
          = Inr (PStr ''A'', PStr ''RED'', PStr ''M'', PStr ''2'')"
    unfolding oitm_df_def by code_simp
  with p have "(Style c, Color c, Size c, Variable c)
          = (PStr ''A'', PStr ''RED'', PStr ''M'', PStr ''2'')"
    by simp
  then have f: "Style c = PStr ''A''" "Color c = PStr ''RED''" "Size c = PStr ''M''"
    "Variable c = PStr ''2''"
    by simp_all
  have e4: "internal_key4 SIZE_MAPPING STYLES_USING_G_SIZES (PStr ''A'') (PStr ''RED'')
      (PStr ''M'') (PStr ''2'') = ''A|RED|M|2''"
    by code_simp
  have e3: "internal_key3 SIZE_MAPPING STYLES_USING_G_SIZES (PStr ''A'') (PStr ''RED'')
      (PStr ''M'') = ''A|RED|M''"
    by code_simp
  have v4: "key4_price vpl_df ''A|RED|M|2'' = None"
    unfolding vpl_df_def by code_simp
  have v3: "key3_price vpl_df ''A|RED|M'' = Some 8"
    unfolding vpl_df_def by code_simp
  from price have "Price c = Some 8"
    by (simp add: k4 k3 f e4 e3 v4 v3)
  moreover from len have "oitm' = [oitm' ! 0]"
    by (cases oitm') simp_all
  ultimately have "map row_price oitm' = [Some 8]"
    using r by (metis (no_types, lifting) list.simps(8,9) row_price_def option.simps(5)
        oitm_row.select_convs(2) oitm_row.surjective oitm_row.update_convs(2))
  with m show ?thesis
    by (simp add: price_column_def oitm_df_def vpl_df_def)
qed

lemma match_prices_rows:
  assumes ne: "oitm_df \<noteq> []"
  shows "\<exists>oitm'.
     match_prices table oitm_df vpl_df rules
       = Inr (oitm', map (\<lambda>v. v\<lparr>vpl_added := Some (vpl_columns v)\<rparr>) vpl_df)
     \<and> length oitm' = length oitm_df
     \<and> (\<forall>i < length oitm_df.
          \<exists>c. oitm_columns table rules (price_lookup_4 vpl_df) (price_lookup_3 vpl_df)
                 (oitm_df ! i) = Inr c
             \<and> oitm' ! i = (oitm_df ! i)\<lparr>oitm_added := Some c\<rparr>)"
proof -
  obtain oitm' where m: "match_prices table oitm_df vpl_df rules
       = Inr (oitm', map (\<lambda>v. v\<lparr>vpl_added := Some (vpl_columns v)\<rparr>) vpl_df)"
    and rel: "list_all2 (\<lambda>r r'. \<exists>c. oitm_columns table rules (price_lookup_4 vpl_df)
                                (price_lookup_3 vpl_df) r = Inr c
                            \<and> r' = r\<lparr>oitm_added := Some c\<rparr>) oitm_df oitm'"
    using match_prices_returns [OF ne] by blast
  from rel have "length oitm' = length oitm_df"
    by (simp add: list_all2_lengthD)
  moreover have "\<exists>c. oitm_columns table rules (price_lookup_4 vpl_df) (price_lookup_3 vpl_df)
              (oitm_df ! i) = Inr c
          \<and> oitm' ! i = (oitm_df ! i)\<lparr>oitm_added := Some c\<rparr>" if "i < length oitm_df" for i
    using rel that by (auto dest: list_all2_nthD)
  ultimately show ?thesis using m by blast
qed

lemma row_price_added: "row_price (r\<lparr>oitm_added := Some c\<rparr>) = Price c"
  by (simp add: row_price_def)




section \<open>The effect of \<open>match_prices\<close> on its two tables\<close>

lemma emap_map: "emap f (map g xs) = emap (\<lambda>x. f (g x)) xs"
  by (induction xs) simp_all

lemma vpl_columns_added: "vpl_columns (v\<lparr>vpl_added := b\<rparr>) = vpl_columns v"
  by (simp add: vpl_columns_def)

lemma vpl_key_added:
  "vpl_key4 (v\<lparr>vpl_added := b\<rparr>) = vpl_key4 v"
  "vpl_key3 (v\<lparr>vpl_added := b\<rparr>) = vpl_key3 v"
  by (simp_all add: vpl_key4_def vpl_key3_def vpl_columns_added)

lemma price_lookup_added:
  "price_lookup_4 (map (\<lambda>v. v\<lparr>vpl_added := b\<rparr>) vpl_df) = price_lookup_4 vpl_df"
  "price_lookup_3 (map (\<lambda>v. v\<lparr>vpl_added := b\<rparr>) vpl_df) = price_lookup_3 vpl_df"
  by (simp_all add: price_lookup_4_def price_lookup_3_def vpl_key_added comp_def)

lemma oitm_columns_added:
  "oitm_columns table rules d4 d3 (r\<lparr>oitm_added := a\<rparr>) = oitm_columns table rules d4 d3 r"
  by (simp add: oitm_columns_def)

lemma match_prices_ignores_added:
  "match_prices table (map (\<lambda>r. r\<lparr>oitm_added := a\<rparr>) oitm_df)
     (map (\<lambda>v. v\<lparr>vpl_added := b\<rparr>) vpl_df) rules
   = match_prices table oitm_df vpl_df rules"
  by (simp add: match_prices_def emap_map price_lookup_added oitm_columns_added
      vpl_columns_added comp_def)

text \<open>
  Claim C3, as stated, fails: the call changes both tables in place. After it the vendor
  table carries the key columns and the internal table the parsed, normalised and price
  columns, which neither table had before.
\<close>

theorem match_prices_in_place_counterexample:
  "(case match_prices SIZE_MAPPING [oitm_item ''A-RED-M'']
           [vpl_item (PStr ''A'') (PStr ''RED'') (PStr ''M'') PNaN (Some 8)]
           STYLES_USING_G_SIZES of
      Inl e \<Rightarrow> False
    | Inr (oitm', vpl') \<Rightarrow>
        oitm' \<noteq> [oitm_item ''A-RED-M'']
        \<and> vpl' \<noteq> [vpl_item (PStr ''A'') (PStr ''RED'') (PStr ''M'') PNaN (Some 8)]
        \<and> map (map_option Lookup_Key_4 \<circ> vpl_added) vpl' = [Some ''A|RED|M|'']
        \<and> map (map_option Price \<circ> oitm_added) oitm' = [Some (Some 8)])
   \<and> map vpl_added [vpl_item (PStr ''A'') (PStr ''RED'') (PStr ''M'') PNaN (Some 8)] = [None]
   \<and> map oitm_added [oitm_item ''A-RED-M''] = [None]"
  by code_simp

text \<open>
  Claim C3, amended. \<open>match_prices\<close> is not free of side effects: it updates both tables
  in place. Whenever it returns, and it does for every internal table with at least one
  row, it has assigned the parsed, normalised, key and price columns to every internal row
  and the normalised and key columns to every vendor row. The loaded columns of both
  tables (the item number; vendor style, color, size, variable and price), the number of
  rows and their order are unchanged, and the outcome depends only on the argument values:
  not on what the assigned columns held before the call.
\<close>

theorem match_prices_frame:
  "(oitm_df \<noteq> [] \<longrightarrow>
      (\<exists>oitm' vpl'. match_prices table oitm_df vpl_df rules = Inr (oitm', vpl')))
   \<and> (\<forall>oitm' vpl'.
        match_prices table oitm_df vpl_df rules = Inr (oitm', vpl') \<longrightarrow>
          map Item_No oitm' = map Item_No oitm_df
        \<and> map Vendor_Style vpl' = map Vendor_Style vpl_df
        \<and> map V_Color vpl' = map V_Color vpl_df
        \<and> map V_Size vpl' = map V_Size vpl_df
        \<and> map V_Variable vpl' = map V_Variable vpl_df
        \<and> map V_Price vpl' = map V_Price vpl_df
        \<and> map vpl_added vpl' = map (\<lambda>v. Some (vpl_columns v)) vpl_df
        \<and> (\<forall>r \<in> set oitm'. oitm_added r \<noteq> None))
   \<and> match_prices table (map (\<lambda>r. r\<lparr>oitm_added := a\<rparr>) oitm_df)
         (map (\<lambda>v. v\<lparr>vpl_added := b\<rparr>) vpl_df) rules
       = match_prices table oitm_df vpl_df rules"
proof (intro conjI allI impI)
  assume "oitm_df \<noteq> []"
  then show "\<exists>oitm' vpl'. match_prices table oitm_df vpl_df rules = Inr (oitm', vpl')"
    using match_prices_rows [of oitm_df table vpl_df rules] by blast
next
  show "match_prices table (map (\<lambda>r. r\<lparr>oitm_added := a\<rparr>) oitm_df)
         (map (\<lambda>v. v\<lparr>vpl_added := b\<rparr>) vpl_df) rules
       = match_prices table oitm_df vpl_df rules"
    by (rule match_prices_ignores_added)
next
  fix oitm' vpl'
  assume ret: "match_prices table oitm_df vpl_df rules = Inr (oitm', vpl')"
  then have ne: "oitm_df \<noteq> []"
    by (auto simp: match_prices_no_rows)
  obtain o2 where m: "match_prices table oitm_df vpl_df rules
       = Inr (o2, map (\<lambda>v. v\<lparr>vpl_added := Some (vpl_columns v)\<rparr>) vpl_df)"
    and len2: "length o2 = length oitm_df"
    and rows2: "\<And>i. i < length oitm_df \<Longrightarrow>
       \<exists>c. oitm_columns table rules (price_lookup_4 vpl_df) (price_lookup_3 vpl_df)
              (oitm_df ! i) = Inr c
          \<and> o2 ! i = (oitm_df ! i)\<lparr>oitm_added := Some c\<rparr>"
    using match_prices_rows [OF ne, of table vpl_df rules] by blast
  from ret m have o2: "o2 = oitm'"
    and vpl': "vpl' = map (\<lambda>v. v\<lparr>vpl_added := Some (vpl_columns v)\<rparr>) vpl_df"
    by simp_all
  from len2 o2 have len: "length oitm' = length oitm_df" by simp
  from rows2 o2 have rows: "\<And>i. i < length oitm_df \<Longrightarrow>
       \<exists>c. oitm' ! i = (oitm_df ! i)\<lparr>oitm_added := Some c\<rparr>"
    by blast
  show "map Item_No oitm' = map Item_No oitm_df"
  proof (rule nth_equalityI)
    show "length (map Item_No oitm') = length (map Item_No oitm_df)"
      by (simp add: len)
    fix i assume "i < length (map Item_No oitm')"
    then have i: "i < length oitm_df" by (simp add: len)
    from rows [OF i] obtain c where "oitm' ! i = (oitm_df ! i)\<lparr>oitm_added := Some c\<rparr>"
      by blast
    with i show "map Item_No oitm' ! i = map Item_No oitm_df ! i"
      by (simp add: len)
  qed
  show "\<forall>r \<in> set oitm'. oitm_added r \<noteq> None"
  proof
    fix r assume "r \<in> set oitm'"
    then obtain i where i: "i < length oitm_df" and r: "r = oitm' ! i"
      by (auto simp: in_set_conv_nth len)
    from rows [OF i] obtain c where "oitm' ! i = (oitm_df ! i)\<lparr>oitm_added := Some c\<rparr>"
      by blast
    with r show "oitm_added r \<noteq> None" by simp
  qed
  show "map Vendor_Style vpl' = map Vendor_Style vpl_df"
    by (simp add: vpl' comp_def)
  show "map V_Color vpl' = map V_Color vpl_df"
    by (simp add: vpl' comp_def)
  show "map V_Size vpl' = map V_Size vpl_df"
    by (simp add: vpl' comp_def)
  show "map V_Variable vpl' = map V_Variable vpl_df"
    by (simp add: vpl' comp_def)
  show "map V_Price vpl' = map V_Price vpl_df"
    by (simp add: vpl' comp_def)
  show "map vpl_added vpl' = map (\<lambda>v. Some (vpl_columns v)) vpl_df"
    by (simp add: vpl' comp_def)
qed

theorem match_prices_frame_witness:
  "[oitm_item ''A-RED-M''] \<noteq> []
   \<and> (\<exists>oitm' vpl'.
     match_prices SIZE_MAPPING [oitm_item ''A-RED-M'']
       [vpl_item (PStr ''A'') (PStr ''RED'') (PStr ''M'') PNaN (Some 8)]
       STYLES_USING_G_SIZES = Inr (oitm', vpl')
     \<and> map Item_No oitm' = [PStr ''A-RED-M'']
     \<and> map V_Price vpl' = [Some 8]
     \<and> map Vendor_Style vpl' = [PStr ''A'']
     \<and> (\<forall>r \<in> set oitm'. oitm_added r \<noteq> None))"
  using match_prices_frame [where oitm_df = "[oitm_item ''A-RED-M'']"
      and table = SIZE_MAPPING
      and vpl_df = "[vpl_item (PStr ''A'') (PStr ''RED'') (PStr ''M'') PNaN (Some 8)]"
      and rules = STYLES_USING_G_SIZES and a = None and b = None]
  by (auto simp: oitm_item_def vpl_item_def)

section \<open>Properties of one price-matching run\<close>

lemma process_vendor_loaded:
  assumes "match_prices table oitm_df vpl_df rules = Inr (oitm', vpl')"
  shows "process_vendor table vend (Inr oitm_df) (Inr vpl_df) output_dir rules =
     (Some \<lparr>vendor = vend,
            total_skus = length oitm',
            matched_skus = length (filter (\<lambda>r. row_price r \<noteq> None) oitm'),
            removed_skus = length oitm' - length (filter (\<lambda>r. row_price r \<noteq> None) oitm'),
            match_rate =
              (if length oitm' > 0
               then of_nat (length (filter (\<lambda>r. row_price r \<noteq> None) oitm'))
                    / of_nat (length oitm') * 100
               else 0),
            size_mapped =
              length (filter (\<lambda>r. row_price r \<noteq> None \<and> row_size_changed r) oitm'),
            output_file = vend @ ''_OITM_Updated.xlsx'',
            removed_items = map Item_No (filter (\<lambda>r. row_price r = None) oitm')\<rparr>,
      output_dir(vend @ ''_OITM_Updated.xlsx'' \<mapsto>
        map (\<lambda>r. (Item_No r, row_price r)) (filter (\<lambda>r. row_price r \<noteq> None) oitm')))"
  using assms
  by (simp add: process_vendor_def process_vendor_try_def ebind_def create_output_file_def
      Let_def)

lemma process_vendor_load_error:
  "process_vendor table vend (Inl e) vpl_file output_dir rules = (None, output_dir)"
  "process_vendor table vend oitm_file (Inl e) output_dir rules = (None, output_dir)"
  by (simp_all add: process_vendor_def process_vendor_try_def ebind_def split: sum.splits)






section \<open>Properties of one discontinuation run\<close>

lemma ebind_Inr: "ebind (Inr x) f = f x"
  by (simp add: ebind_def)

lemma ebind_Inl: "ebind (Inl e) f = Inl e"
  by (simp add: ebind_def)

lemma disc_item_key_parse:
  "\<exists>style color size' variable.
     parse_item_no_disc (ItemCode r) = Inr (style, color, size', variable)
     \<and> oitm_lookup_key r = Inr (create_lookup_key style color size' variable)
     \<and> disc_item_key r = create_lookup_key style color size' variable"
proof -
  obtain style color size' variable
    where p: "parse_item_no_disc (ItemCode r) = Inr (style, color, size', variable)"
    using parse_item_no_total [of "ItemCode r"]
    by (metis parse_item_no_disc_eq prod_cases4)
  then have "oitm_lookup_key r = Inr (create_lookup_key style color size' variable)"
    by (simp add: oitm_lookup_key_def ebind_def)
  with p show ?thesis by (auto simp: disc_item_key_def)
qed

lemma oitm_lookup_key_total: "oitm_lookup_key r = Inr (disc_item_key r)"
  using disc_item_key_parse [of r] by auto

lemma emap_lookup_keys:
  "emap (\<lambda>r. ebind (oitm_lookup_key r) (\<lambda>k. Inr (r, k))) oitm_df
     = Inr (map (\<lambda>r. (r, disc_item_key r)) oitm_df)"
  by (induction oitm_df) (simp_all add: ebind_def oitm_lookup_key_total)

lemma filter_keyed:
  "filter (\<lambda>(r, k). P r k) (map (\<lambda>r. (r, f r)) xs) = map (\<lambda>r. (r, f r)) (filter (\<lambda>r. P r (f r)) xs)"
  by (induction xs) simp_all

lemma find_discontinued_items_no_rows:
  "find_discontinued_items vend (Inr []) (Inr dtw_df) output_dir = (None, output_dir)"
  by (simp add: find_discontinued_items_def find_discontinued_items_try_def ebind_Inr ebind_Inl)

lemma find_discontinued_items_loaded:
  assumes ne: "oitm_df \<noteq> []"
  shows "find_discontinued_items vend (Inr oitm_df) (Inr dtw_df) output_dir =
     (if filter is_discontinued dtw_df = [] then
        (Some \<lparr>d_vendor = vend, total_oitm = length oitm_df, discontinued_in_dtw = 0,
               matched_to_deactivate = 0, d_output_file = None, items_list = None\<rparr>,
         output_dir)
      else if items_to_deactivate oitm_df dtw_df = [] then
        (Some \<lparr>d_vendor = vend, total_oitm = length oitm_df,
               discontinued_in_dtw = length (filter is_discontinued dtw_df),
               matched_to_deactivate = 0, d_output_file = None, items_list = None\<rparr>,
         output_dir)
      else
        (Some \<lparr>d_vendor = vend, total_oitm = length oitm_df,
               discontinued_in_dtw = length (filter is_discontinued dtw_df),
               matched_to_deactivate = length (items_to_deactivate oitm_df dtw_df),
               d_output_file = Some (vend @ ''_DEACTIVATE_DTW.xlsx''),
               items_list = Some (map ItemCode (items_to_deactivate oitm_df dtw_df))\<rparr>,
         output_dir(vend @ ''_DEACTIVATE_DTW.xlsx'' \<mapsto>
           map (\<lambda>r. (ItemCode r, ''Y'', ''N'')) (items_to_deactivate oitm_df dtw_df))))"
proof -
  have d: "filter (\<lambda>(r, k). is_discontinued r) (map (\<lambda>r. (r, dtw_lookup_key r)) dtw_df)
      = map (\<lambda>r. (r, dtw_lookup_key r)) (filter is_discontinued dtw_df)"
    using filter_keyed [of "\<lambda>r k. is_discontinued r" dtw_lookup_key dtw_df] by simp
  have keys: "set (map (snd \<circ> (\<lambda>r. (r, dtw_lookup_key r))) (filter is_discontinued dtw_df))
      = discontinued_keys dtw_df"
    by (simp add: discontinued_keys_def comp_def)
  have keys': "set (map dtw_lookup_key (filter is_discontinued dtw_df))
      = discontinued_keys dtw_df"
    by (simp add: discontinued_keys_def)
  have none: "items_to_deactivate oitm_df dtw_df = []" if "filter is_discontinued dtw_df = []"
    using that by (simp add: items_to_deactivate_def discontinued_keys_def)
  have h: "filter (\<lambda>(r, k). k \<in> discontinued_keys dtw_df)
        (map (\<lambda>r. (r, disc_item_key r)) oitm_df)
      = map (\<lambda>r. (r, disc_item_key r)) (items_to_deactivate oitm_df dtw_df)"
    using filter_keyed [of "\<lambda>r k. k \<in> discontinued_keys dtw_df" disc_item_key oitm_df]
    by (simp add: items_to_deactivate_def)
  show ?thesis
    unfolding find_discontinued_items_def find_discontinued_items_try_def
    using ne
    by (simp add: ebind_Inr emap_lookup_keys Let_def d keys keys' h none comp_def
        del: set_map length_filter_map)
qed

lemma items_to_deactivate_none:
  "filter is_discontinued dtw_df = [] \<Longrightarrow> items_to_deactivate oitm_df dtw_df = []"
  by (simp add: items_to_deactivate_def discontinued_keys_def)

lemma flagged_items_loaded:
  "flagged_items vend (Inr oitm_df) (Inr dtw_df)
     = map ItemCode (items_to_deactivate oitm_df dtw_df)"
proof (cases "oitm_df = []")
  case True
  then show ?thesis
    by (simp add: flagged_items_def find_discontinued_items_no_rows items_to_deactivate_def)
next
  case False
  then show ?thesis
    by (simp add: flagged_items_def find_discontinued_items_loaded comp_def
        items_to_deactivate_none)
qed

lemma find_discontinued_items_load_error:
  "find_discontinued_items vend (Inl e) dtw_file output_dir = (None, output_dir)"
  "find_discontinued_items vend oitm_file (Inl e) output_dir = (None, output_dir)"
  by (simp_all add: find_discontinued_items_def find_discontinued_items_try_def ebind_Inl
      ebind_def split: sum.splits)

lemma discontinued_keys_filter:
  "discontinued_keys (filter is_discontinued dtw_df) = discontinued_keys dtw_df"
  by (simp add: discontinued_keys_def)

text \<open>
  Claim C6. In discontinuation mode, for every internal table and vendor table, the items
  written to the deactivation sheet are exactly the internal items whose key is in the set
  of keys of the vendor rows whose style name contains \<open>DISCONTINUED\<close> in any letter case,
  in the order of the internal table; the key of an internal item is \<open>create_lookup_key\<close> of
  its parsed fields and the key of a vendor row \<open>create_lookup_key\<close> of its own fields (one
  tier, no size mapping); and the vendor rows without the marker have no influence on the
  output. On an internal table with at least one row the run gives a result that counts
  these items and, when there are any, lists them.
\<close>

theorem flagged_items_exact:
  "flagged_items vend (Inr oitm_df) (Inr dtw_df)
     = map ItemCode
         (filter (\<lambda>r. disc_item_key r
                        \<in> set (map dtw_lookup_key (filter is_discontinued dtw_df))) oitm_df)
   \<and> (\<exists>style color size' variable.
         parse_item_no_disc (ItemCode r) = Inr (style, color, size', variable)
         \<and> disc_item_key r = create_lookup_key style color size' variable)
   \<and> dtw_lookup_key v
       = create_lookup_key (D_Vendor_Style v) (D_Color v) (D_Size v) (D_Variable v)
   \<and> is_discontinued v = sublist ''DISCONTINUED'' (upper (py_str (Style_Name v)))
   \<and> flagged_items vend (Inr oitm_df) (Inr (filter is_discontinued dtw_df))
       = flagged_items vend (Inr oitm_df) (Inr dtw_df)
   \<and> (oitm_df \<noteq> [] \<longrightarrow>
        (case fst (find_discontinued_items vend (Inr oitm_df) (Inr dtw_df) output_dir) of
           None \<Rightarrow> False
         | Some result \<Rightarrow>
             items_list result
               = (if flagged_items vend (Inr oitm_df) (Inr dtw_df) = [] then None
                  else Some (flagged_items vend (Inr oitm_df) (Inr dtw_df)))
             \<and> matched_to_deactivate result
                 = length (flagged_items vend (Inr oitm_df) (Inr dtw_df))))"
proof -
  have a: "flagged_items vend (Inr oitm_df) (Inr dtw_df)
     = map ItemCode
         (filter (\<lambda>r. disc_item_key r
                        \<in> set (map dtw_lookup_key (filter is_discontinued dtw_df))) oitm_df)"
    by (simp only: flagged_items_loaded items_to_deactivate_def discontinued_keys_def)
  have b: "\<exists>style color size' variable.
         parse_item_no_disc (ItemCode r) = Inr (style, color, size', variable)
         \<and> disc_item_key r = create_lookup_key style color size' variable"
    using disc_item_key_parse [of r] by blast
  have c: "dtw_lookup_key v
       = create_lookup_key (D_Vendor_Style v) (D_Color v) (D_Size v) (D_Variable v)"
    by (simp add: dtw_lookup_key_def)
  have d: "is_discontinued v = sublist ''DISCONTINUED'' (upper (py_str (Style_Name v)))"
    by (simp add: is_discontinued_def py_contains_def)
  have e: "flagged_items vend (Inr oitm_df) (Inr (filter is_discontinued dtw_df))
       = flagged_items vend (Inr oitm_df) (Inr dtw_df)"
    by (simp add: flagged_items_loaded items_to_deactivate_def discontinued_keys_filter)
  have f: "(case fst (find_discontinued_items vend (Inr oitm_df) (Inr dtw_df) output_dir) of
           None \<Rightarrow> False
         | Some result \<Rightarrow>
             items_list result
               = (if flagged_items vend (Inr oitm_df) (Inr dtw_df) = [] then None
                  else Some (flagged_items vend (Inr oitm_df) (Inr dtw_df)))
             \<and> matched_to_deactivate result
                 = length (flagged_items vend (Inr oitm_df) (Inr dtw_df)))"
    if ne: "oitm_df \<noteq> []"
  proof (cases "filter is_discontinued dtw_df = []")
    case True
    then have "items_to_deactivate oitm_df dtw_df = []"
      by (simp add: items_to_deactivate_def discontinued_keys_def)
    with True show ?thesis
      by (simp add: find_discontinued_items_loaded [OF ne] flagged_items_loaded)
  next
    case False
    then show ?thesis
      by (simp add: find_discontinued_items_loaded [OF ne] flagged_items_loaded)
  qed
  from a b c d e f show ?thesis by blast
qed

theorem flagged_items_exact_witness:
  "flagged_items ''V105''
     (Inr [disc_item ''A-RED-M'', disc_item ''B-BLUE-S'', disc_item ''C-TOO-SHORT''])
     (Inr [dtw_item (PStr ''b'') ''Classic Tee - Discontinued'' (PStr ''Blue '') (PStr ''S'') PNaN,
           dtw_item (PStr ''A'') ''Classic Tee'' (PStr ''RED'') (PStr ''M'') PNaN])
   = [PStr ''B-BLUE-S'']
   \<and> [disc_item ''A-RED-M'', disc_item ''B-BLUE-S'', disc_item ''C-TOO-SHORT''] \<noteq> []
   \<and> (case fst (find_discontinued_items ''V105''
          (Inr [disc_item ''A-RED-M'', disc_item ''B-BLUE-S'', disc_item ''C-TOO-SHORT''])
          (Inr [dtw_item (PStr ''b'') ''Classic Tee - Discontinued'' (PStr ''Blue '') (PStr ''S'') PNaN,
                dtw_item (PStr ''A'') ''Classic Tee'' (PStr ''RED'') (PStr ''M'') PNaN])
          Map.empty) of
        None \<Rightarrow> False
      | Some result \<Rightarrow>
          items_list result = Some [PStr ''B-BLUE-S''] \<and> matched_to_deactivate result = 1)"
proof -
  define oitm_df
    where "oitm_df = [disc_item ''A-RED-M'', disc_item ''B-BLUE-S'', disc_item ''C-TOO-SHORT'']"
  define dtw_df
    where "dtw_df =
      [dtw_item (PStr ''b'') ''Classic Tee - Discontinued'' (PStr ''Blue '') (PStr ''S'') PNaN,
       dtw_item (PStr ''A'') ''Classic Tee'' (PStr ''RED'') (PStr ''M'') PNaN]"
  have ne: "oitm_df \<noteq> []" by (simp add: oitm_df_def)
  have ev: "map ItemCode
         (filter (\<lambda>r. disc_item_key r
            \<in> set (map dtw_lookup_key (filter is_discontinued dtw_df))) oitm_df)
        = [PStr ''B-BLUE-S'']"
    unfolding oitm_df_def dtw_df_def by code_simp
  note inst = flagged_items_exact [where vend = "''V105''" and oitm_df = oitm_df
      and dtw_df = dtw_df and output_dir = Map.empty]
  from inst ev have fl: "flagged_items ''V105'' (Inr oitm_df) (Inr dtw_df) = [PStr ''B-BLUE-S'']"
    by simp
  from inst ne
  have "(case fst (find_discontinued_items ''V105'' (Inr oitm_df) (Inr dtw_df) Map.empty) of
           None \<Rightarrow> False
         | Some result \<Rightarrow>
             items_list result
               = (if flagged_items ''V105'' (Inr oitm_df) (Inr dtw_df) = [] then None
                  else Some (flagged_items ''V105'' (Inr oitm_df) (Inr dtw_df)))
             \<and> matched_to_deactivate result
                 = length (flagged_items ''V105'' (Inr oitm_df) (Inr dtw_df)))"
    by blast
  then have "(case fst (find_discontinued_items ''V105'' (Inr oitm_df) (Inr dtw_df) Map.empty) of
        None \<Rightarrow> False
      | Some result \<Rightarrow>
          items_list result = Some [PStr ''B-BLUE-S''] \<and> matched_to_deactivate result = 1)"
    by (simp add: fl split: option.splits)
  with fl ne show ?thesis
    unfolding oitm_df_def dtw_df_def by simp
qed

section \<open>Runs without a match\<close>

text \<open>
  Claim C8, as stated, fails twice. In price-matching mode a run without a single match
  still writes the output file of the pair, with no data rows. And an internal table with
  zero rows does not complete normally in either mode: the assignment of the parsed
  columns raises, the exception is caught, and the pair gives no result, so that it is
  missing from the summary instead of being reported with a zero count.
\<close>

theorem zero_matches_output_file_counterexample:
  "(case process_vendor SIZE_MAPPING ''V105'' (Inr [oitm_item ''A-RED-M''])
           (Inr [vpl_item (PStr ''B'') (PStr ''RED'') (PStr ''M'') PNaN (Some 8)])
           Map.empty STYLES_USING_G_SIZES of
      (None, output_dir') \<Rightarrow> False
    | (Some result, output_dir') \<Rightarrow>
        matched_skus result = 0
        \<and> output_file result = ''V105_OITM_Updated.xlsx''
        \<and> output_dir' ''V105_OITM_Updated.xlsx'' = Some [])
   \<and> (Map.empty :: price_files) ''V105_OITM_Updated.xlsx'' = None
   \<and> fst (process_vendor SIZE_MAPPING ''V105'' (Inr [])
           (Inr [vpl_item (PStr ''B'') (PStr ''RED'') (PStr ''M'') PNaN (Some 8)])
           Map.empty STYLES_USING_G_SIZES) = None
   \<and> summary_rows (fst (process_all SIZE_MAPPING STYLES_USING_G_SIZES
           [(''V105'', Inr [],
             Inr [vpl_item (PStr ''B'') (PStr ''RED'') (PStr ''M'') PNaN (Some 8)])]
           [] Map.empty)) = []
   \<and> fst (find_discontinued_items ''V105'' (Inr [])
           (Inr [dtw_item (PStr ''A'') ''Classic Tee'' (PStr ''RED'') (PStr ''M'') PNaN])
           Map.empty) = None"
  by code_simp

text \<open>
  Claim C8, amended. On loaded tables of which the internal one has at least one row, the
  vendor table being any table, also one without rows, a run with zero matches (price
  mode) or with zero discontinued vendor rows or zero flagged items (discontinuation mode)
  is not an error: the pair completes with a result, which the summary reports with its
  zero count. In discontinuation mode no output file is produced for such a pair; in price
  mode the output file of the pair is still written, with no data rows. No exception
  leaves the processing of a pair: a failure inside it, such as a table that cannot be
  loaded, is caught, the pair gives no result, the output directory is unchanged, and the
  loop over the pairs goes on.
\<close>

theorem zero_result_is_not_an_error:
  assumes ne: "oitm_df \<noteq> []" and dne: "disc_oitm_df \<noteq> []"
  shows "(\<exists>result rows.
       process_vendor table vend (Inr oitm_df) (Inr vpl_df) output_dir rules
         = (Some result, output_dir(vend @ ''_OITM_Updated.xlsx'' \<mapsto> rows))
       \<and> process_all table rules [(vend, Inr oitm_df, Inr vpl_df)] [] output_dir
           = ([result], output_dir(vend @ ''_OITM_Updated.xlsx'' \<mapsto> rows))
       \<and> summary_rows [result]
           = [(vend, length oitm_df, matched_skus result,
               length oitm_df - matched_skus result, vend @ ''_OITM_Updated.xlsx'')]
       \<and> (vpl_df = [] \<longrightarrow> matched_skus result = 0)
       \<and> (matched_skus result = 0 \<longrightarrow>
            rows = [] \<and> removed_skus result = length oitm_df
            \<and> length (removed_items result) = length oitm_df))
   \<and> (\<exists>result output_dir'.
       find_discontinued_items vend (Inr disc_oitm_df) (Inr dtw_df) disc_dir
         = (Some result, output_dir')
       \<and> total_oitm result = length disc_oitm_df
       \<and> (filter is_discontinued dtw_df = [] \<longrightarrow>
            discontinued_in_dtw result = 0 \<and> matched_to_deactivate result = 0)
       \<and> (matched_to_deactivate result = 0 \<longrightarrow>
            output_dir' = disc_dir \<and> d_output_file result = None
            \<and> disc_summary_rows [result]
                = [(vend, length disc_oitm_df, discontinued_in_dtw result, 0,
                    ''No items to deactivate'')]))
   \<and> process_vendor table vend (Inl e) vpl_file output_dir rules = (None, output_dir)
   \<and> process_vendor table vend oitm_file (Inl e) output_dir rules = (None, output_dir)
   \<and> find_discontinued_items vend (Inl e) dtw_file disc_dir = (None, disc_dir)
   \<and> find_discontinued_items vend disc_oitm_file (Inl e) disc_dir = (None, disc_dir)
   \<and> (fst (process_vendor table vend oitm_file vpl_file output_dir rules) = None \<longrightarrow>
        snd (process_vendor table vend oitm_file vpl_file output_dir rules) = output_dir
        \<and> process_all table rules ((vend, oitm_file, vpl_file) # file_pairs) results output_dir
            = process_all table rules file_pairs results output_dir)
   \<and> (fst (find_discontinued_items vend disc_oitm_file dtw_file disc_dir) = None \<longrightarrow>
        snd (find_discontinued_items vend disc_oitm_file dtw_file disc_dir) = disc_dir)"
proof -
  obtain oitm' vpl' where m: "match_prices table oitm_df vpl_df rules = Inr (oitm', vpl')"
    and len: "length oitm' = length oitm_df"
    and cols: "\<And>i. i < length oitm_df \<Longrightarrow>
       \<exists>c. oitm_columns table rules (price_lookup_4 vpl_df) (price_lookup_3 vpl_df)
              (oitm_df ! i) = Inr c
          \<and> oitm' ! i = (oitm_df ! i)\<lparr>oitm_added := Some c\<rparr>"
    using match_prices_rows [OF ne, of table vpl_df rules] by blast
  define rows where
    "rows = map (\<lambda>r. (Item_No r, row_price r)) (filter (\<lambda>r. row_price r \<noteq> None) oitm')"
  define result where "result = \<lparr>vendor = vend,
            total_skus = length oitm',
            matched_skus = length (filter (\<lambda>r. row_price r \<noteq> None) oitm'),
            removed_skus = length oitm' - length (filter (\<lambda>r. row_price r \<noteq> None) oitm'),
            match_rate =
              (if length oitm' > 0
               then of_nat (length (filter (\<lambda>r. row_price r \<noteq> None) oitm'))
                    / of_nat (length oitm') * 100
               else 0),
            size_mapped =
              length (filter (\<lambda>r. row_price r \<noteq> None \<and> row_size_changed r) oitm'),
            output_file = vend @ ''_OITM_Updated.xlsx'',
            removed_items = map Item_No (filter (\<lambda>r. row_price r = None) oitm')\<rparr>"
  have run: "process_vendor table vend (Inr oitm_df) (Inr vpl_df) output_dir rules
       = (Some result, output_dir(vend @ ''_OITM_Updated.xlsx'' \<mapsto> rows))"
    using process_vendor_loaded [OF m] by (simp add: result_def rows_def)
  have all: "process_all table rules [(vend, Inr oitm_df, Inr vpl_df)] [] output_dir
           = ([result], output_dir(vend @ ''_OITM_Updated.xlsx'' \<mapsto> rows))"
    by (simp add: run)
  have summary: "summary_rows [result]
           = [(vend, length oitm_df, matched_skus result,
               length oitm_df - matched_skus result, vend @ ''_OITM_Updated.xlsx'')]"
    by (simp add: summary_rows_def result_def len)
  have empty: "matched_skus result = 0" if v: "vpl_df = []"
  proof -
    have "row_price r = None" if "r \<in> set oitm'" for r
    proof -
      from that obtain i where i: "i < length oitm_df" and r: "r = oitm' ! i"
        by (auto simp: in_set_conv_nth len)
      from cols [OF i] obtain c
        where c: "oitm_columns table rules (price_lookup_4 vpl_df) (price_lookup_3 vpl_df)
                    (oitm_df ! i) = Inr c"
          and r': "oitm' ! i = (oitm_df ! i)\<lparr>oitm_added := Some c\<rparr>"
        by blast
      have "Price c = None"
        using oitm_columns_price [OF c]
        by (simp add: v key4_price_def key3_price_def last_row_with_def)
      then show ?thesis by (simp add: r r' row_price_added)
    qed
    then have "filter (\<lambda>r. row_price r \<noteq> None) oitm' = []"
      by (simp add: filter_empty_conv)
    then show ?thesis by (simp add: result_def)
  qed
  have zero: "rows = [] \<and> removed_skus result = length oitm_df
            \<and> length (removed_items result) = length oitm_df"
    if z: "matched_skus result = 0"
  proof -
    from z have none: "filter (\<lambda>r. row_price r \<noteq> None) oitm' = []"
      by (simp add: result_def)
    then have "\<forall>r \<in> set oitm'. row_price r = None"
      by (simp add: filter_empty_conv)
    then have "filter (\<lambda>r. row_price r = None) oitm' = oitm'"
      by (simp add: filter_id_conv)
    with none show ?thesis
      by (simp add: rows_def result_def len)
  qed
  have price: "\<exists>result rows.
       process_vendor table vend (Inr oitm_df) (Inr vpl_df) output_dir rules
         = (Some result, output_dir(vend @ ''_OITM_Updated.xlsx'' \<mapsto> rows))
       \<and> process_all table rules [(vend, Inr oitm_df, Inr vpl_df)] [] output_dir
           = ([result], output_dir(vend @ ''_OITM_Updated.xlsx'' \<mapsto> rows))
       \<and> summary_rows [result]
           = [(vend, length oitm_df, matched_skus result,
               length oitm_df - matched_skus result, vend @ ''_OITM_Updated.xlsx'')]
       \<and> (vpl_df = [] \<longrightarrow> matched_skus result = 0)
       \<and> (matched_skus result = 0 \<longrightarrow>
            rows = [] \<and> removed_skus result = length oitm_df
            \<and> length (removed_items result) = length oitm_df)"
    by (rule exI [where x = result], rule exI [where x = rows])
      (simp add: run all summary zero empty)
  have disc: "\<exists>result output_dir'.
       find_discontinued_items vend (Inr disc_oitm_df) (Inr dtw_df) disc_dir
         = (Some result, output_dir')
       \<and> total_oitm result = length disc_oitm_df
       \<and> (filter is_discontinued dtw_df = [] \<longrightarrow>
            discontinued_in_dtw result = 0 \<and> matched_to_deactivate result = 0)
       \<and> (matched_to_deactivate result = 0 \<longrightarrow>
            output_dir' = disc_dir \<and> d_output_file result = None
            \<and> disc_summary_rows [result]
                = [(vend, length disc_oitm_df, discontinued_in_dtw result, 0,
                    ''No items to deactivate'')])"
  proof (cases "filter is_discontinued dtw_df = []")
    case True
    then show ?thesis
      by (simp add: find_discontinued_items_loaded [OF dne] disc_summary_rows_def)
  next
    case False
    show ?thesis
    proof (cases "items_to_deactivate disc_oitm_df dtw_df = []")
      case True
      with False show ?thesis
        by (simp add: find_discontinued_items_loaded [OF dne] disc_summary_rows_def)
    next
      case nonempty: False
      with False show ?thesis
        by (simp add: find_discontinued_items_loaded [OF dne] disc_summary_rows_def)
    qed
  qed
  have caught: "fst (process_vendor table vend oitm_file vpl_file output_dir rules) = None \<longrightarrow>
        snd (process_vendor table vend oitm_file vpl_file output_dir rules) = output_dir
        \<and> process_all table rules ((vend, oitm_file, vpl_file) # file_pairs) results output_dir
            = process_all table rules file_pairs results output_dir"
    by (auto simp: process_vendor_def split: sum.splits prod.splits)
  have dcaught: "fst (find_discontinued_items vend disc_oitm_file dtw_file disc_dir) = None \<longrightarrow>
        snd (find_discontinued_items vend disc_oitm_file dtw_file disc_dir) = disc_dir"
    by (auto simp: find_discontinued_items_def split: sum.splits prod.splits)
  from price disc caught dcaught show ?thesis
    by (simp only: process_vendor_load_error find_discontinued_items_load_error simp_thms)
qed

theorem zero_result_is_not_an_error_witness:
  "[oitm_item ''A-RED-M''] \<noteq> [] \<and> [disc_item ''A-RED-M''] \<noteq> []
   \<and> (\<exists>result.
       process_vendor SIZE_MAPPING ''V105'' (Inr [oitm_item ''A-RED-M''])
           (Inr [vpl_item (PStr ''B'') (PStr ''RED'') (PStr ''M'') PNaN (Some 8)])
           Map.empty STYLES_USING_G_SIZES
         = (Some result, [''V105_OITM_Updated.xlsx'' \<mapsto> []])
       \<and> summary_rows [result] = [(''V105'', 1, 0, 1, ''V105_OITM_Updated.xlsx'')])
   \<and> (\<exists>result.
       find_discontinued_items ''V105'' (Inr [disc_item ''A-RED-M''])
           (Inr [dtw_item (PStr ''A'') ''Classic Tee'' (PStr ''RED'') (PStr ''M'') PNaN])
           Map.empty
         = (Some result, Map.empty)
       \<and> disc_summary_rows [result] = [(''V105'', 1, 0, 0, ''No items to deactivate'')])
   \<and> (\<exists>result.
       process_vendor SIZE_MAPPING ''V105'' (Inr [oitm_item ''A-RED-M'']) (Inr [])
           Map.empty STYLES_USING_G_SIZES
         = (Some result, [''V105_OITM_Updated.xlsx'' \<mapsto> []])
       \<and> summary_rows [result] = [(''V105'', 1, 0, 1, ''V105_OITM_Updated.xlsx'')])
   \<and> (\<exists>result.
       find_discontinued_items ''V105'' (Inr [disc_item ''A-RED-M'']) (Inr []) Map.empty
         = (Some result, Map.empty)
       \<and> disc_summary_rows [result] = [(''V105'', 1, 0, 0, ''No items to deactivate'')])"
proof -
  define oitm_df where "oitm_df = [oitm_item ''A-RED-M'']"
  define vpl_df where "vpl_df = [vpl_item (PStr ''B'') (PStr ''RED'') (PStr ''M'') PNaN (Some 8)]"
  define d_oitm where "d_oitm = [disc_item ''A-RED-M'']"
  define dtw_df where
    "dtw_df = [dtw_item (PStr ''A'') ''Classic Tee'' (PStr ''RED'') (PStr ''M'') PNaN]"
  have ne: "oitm_df \<noteq> []" "d_oitm \<noteq> []"
    by (simp_all add: oitm_df_def d_oitm_def)
  have nodisc: "filter is_discontinued dtw_df = []"
    unfolding dtw_df_def by code_simp
  have col: "price_column SIZE_MAPPING oitm_df vpl_df STYLES_USING_G_SIZES = Some [None]"
    unfolding oitm_df_def vpl_df_def by code_simp
  note inst = zero_result_is_not_an_error [OF ne, of SIZE_MAPPING "''V105''" vpl_df Map.empty
      STYLES_USING_G_SIZES dtw_df Map.empty]
  note inst0 = zero_result_is_not_an_error [OF ne, of SIZE_MAPPING "''V105''" "[]" Map.empty
      STYLES_USING_G_SIZES "[]" Map.empty]
  from inst [THEN conjunct1]
  obtain result rows where
    run: "process_vendor SIZE_MAPPING ''V105'' (Inr oitm_df) (Inr vpl_df) Map.empty
            STYLES_USING_G_SIZES
          = (Some result, [''V105_OITM_Updated.xlsx'' \<mapsto> rows])"
    and summary: "summary_rows [result]
           = [(''V105'', length oitm_df, matched_skus result,
               length oitm_df - matched_skus result, ''V105_OITM_Updated.xlsx'')]"
    and zero: "matched_skus result = 0 \<longrightarrow>
            rows = [] \<and> removed_skus result = length oitm_df
            \<and> length (removed_items result) = length oitm_df"
    by auto
  from inst [THEN conjunct2, THEN conjunct1]
  obtain dresult ddir where
    drun: "find_discontinued_items ''V105'' (Inr d_oitm) (Inr dtw_df) Map.empty
         = (Some dresult, ddir)"
    and dtotal: "total_oitm dresult = length d_oitm"
    and dnone: "filter is_discontinued dtw_df = [] \<longrightarrow>
            discontinued_in_dtw dresult = 0 \<and> matched_to_deactivate dresult = 0"
    and dzero: "matched_to_deactivate dresult = 0 \<longrightarrow>
            ddir = Map.empty \<and> d_output_file dresult = None
            \<and> disc_summary_rows [dresult]
                = [(''V105'', length d_oitm, discontinued_in_dtw dresult, 0,
                    ''No items to deactivate'')]"
    by auto
  obtain oitm' vpl' where m: "match_prices SIZE_MAPPING oitm_df vpl_df STYLES_USING_G_SIZES
      = Inr (oitm', vpl')"
    using match_prices_rows [OF ne(1), of SIZE_MAPPING vpl_df STYLES_USING_G_SIZES] by blast
  with col have prices: "map row_price oitm' = [None]"
    by (simp add: price_column_def)
  then have "filter (\<lambda>r. row_price r \<noteq> None) oitm' = []"
    by (cases oitm') auto
  with run process_vendor_loaded [OF m, of "''V105''" Map.empty]
  have "matched_skus result = 0" by auto
  with zero summary have p: "rows = []"
    "summary_rows [result] = [(''V105'', 1, 0, 1, ''V105_OITM_Updated.xlsx'')]"
    by (simp_all add: oitm_df_def)
  from dnone nodisc dzero have d: "ddir = Map.empty"
    "disc_summary_rows [dresult] = [(''V105'', 1, 0, 0, ''No items to deactivate'')]"
    by (simp_all add: d_oitm_def)
  from inst0 [THEN conjunct1]
  obtain result0 rows0 where
    run0: "process_vendor SIZE_MAPPING ''V105'' (Inr oitm_df) (Inr []) Map.empty
            STYLES_USING_G_SIZES
          = (Some result0, [''V105_OITM_Updated.xlsx'' \<mapsto> rows0])"
    and summary0: "summary_rows [result0]
           = [(''V105'', length oitm_df, matched_skus result0,
               length oitm_df - matched_skus result0, ''V105_OITM_Updated.xlsx'')]"
    and empty0: "matched_skus result0 = 0"
    and zero0: "matched_skus result0 = 0 \<longrightarrow>
            rows0 = [] \<and> removed_skus result0 = length oitm_df
            \<and> length (removed_items result0) = length oitm_df"
    by auto
  from empty0 zero0 summary0 have p0: "rows0 = []"
    "summary_rows [result0] = [(''V105'', 1, 0, 1, ''V105_OITM_Updated.xlsx'')]"
    by (simp_all add: oitm_df_def)
  from inst0 [THEN conjunct2, THEN conjunct1]
  obtain dresult0 ddir0 where
    drun0: "find_discontinued_items ''V105'' (Inr d_oitm) (Inr []) Map.empty
         = (Some dresult0, ddir0)"
    and dnone0: "discontinued_in_dtw dresult0 = 0 \<and> matched_to_deactivate dresult0 = 0"
    and dzero0: "matched_to_deactivate dresult0 = 0 \<longrightarrow>
            ddir0 = Map.empty \<and> d_output_file dresult0 = None
            \<and> disc_summary_rows [dresult0]
                = [(''V105'', length d_oitm, discontinued_in_dtw dresult0, 0,
                    ''No items to deactivate'')]"
    by auto
  from dnone0 dzero0 have d0: "ddir0 = Map.empty"
    "disc_summary_rows [dresult0] = [(''V105'', 1, 0, 0, ''No items to deactivate'')]"
    by (simp_all add: d_oitm_def)
  have a: "\<exists>result.
       process_vendor SIZE_MAPPING ''V105'' (Inr oitm_df) (Inr vpl_df) Map.empty
           STYLES_USING_G_SIZES
         = (Some result, [''V105_OITM_Updated.xlsx'' \<mapsto> []])
       \<and> summary_rows [result] = [(''V105'', 1, 0, 1, ''V105_OITM_Updated.xlsx'')]"
    using run p by blast
  have b: "\<exists>result.
       find_discontinued_items ''V105'' (Inr d_oitm) (Inr dtw_df) Map.empty
         = (Some result, Map.empty)
       \<and> disc_summary_rows [result] = [(''V105'', 1, 0, 0, ''No items to deactivate'')]"
    using drun d by blast
  have c: "\<exists>result.
       process_vendor SIZE_MAPPING ''V105'' (Inr oitm_df) (Inr []) Map.empty
           STYLES_USING_G_SIZES
         = (Some result, [''V105_OITM_Updated.xlsx'' \<mapsto> []])
       \<and> summary_rows [result] = [(''V105'', 1, 0, 1, ''V105_OITM_Updated.xlsx'')]"
    using run0 p0 by blast
  have e: "\<exists>result.
       find_discontinued_items ''V105'' (Inr d_oitm) (Inr []) Map.empty
         = (Some result, Map.empty)
       \<and> disc_summary_rows [result] = [(''V105'', 1, 0, 0, ''No items to deactivate'')]"
    using drun0 d0 by blast
  from a b c e ne show ?thesis
    unfolding oitm_df_def vpl_df_def d_oitm_def dtw_df_def by blast
qed

end
